theory Spec2Isabelle
  imports Main
begin

section \<open>Data model (types.ts)\<close>

text \<open>
  Values produced by \<^verbatim>\<open>JSON.parse\<close>. The inference client returns the parsed value
  behind a compile-time cast (\<^verbatim>\<open>as AnalysisResult\<close>), so an analysis result is whatever
  JSON value the capability sent; \<open>JNull\<close> is the \<^verbatim>\<open>null\<close> of
  \<^verbatim>\<open>AnalysisResult | null\<close>.
\<close>

datatype json =
    JNull
  | JBool bool
  | JNum int
  | JStr string
  | JArr "json list"
  | JObj "(string \<times> json) list"

text \<open>A browser \<^verbatim>\<open>File\<close>: name, MIME type and content (bytes).\<close>

record js_file =
  fname :: string
  ftype :: string
  fdata :: "nat list"

text \<open>
  A JavaScript \<^verbatim>\<open>Date\<close>: milliseconds since the epoch, or the Invalid Date that
  \<^verbatim>\<open>new Date(x)\<close> yields for an \<open>x\<close> it cannot read.
\<close>

datatype js_date = Instant int | InvalidDate

text \<open>Something thrown: an \<^verbatim>\<open>Error\<close> with its message, or any other value.\<close>

datatype thrown = ErrorObj string | NonError

record lesion_image =
  img_id :: string
  imageDataUrl :: string
  img_file :: "js_file option"
  analysisResult :: json
  timestamp :: js_date

text \<open>
  \<^verbatim>\<open>Patient\<close>, with the image type left open: in memory the images are
  \<open>lesion_image\<close>s, on the way to storage they lose the \<^verbatim>\<open>file\<close> member and then
  their \<^verbatim>\<open>Date\<close>.
\<close>

record 'img patient_rec =
  pat_id :: string
  patientId :: "string option"
  pat_name :: string
  dob :: string
  gender :: "string option"
  bloodType :: "string option"
  existingConditions :: "string option"
  lesionImages :: "'img list"

type_synonym patient = "lesion_image patient_rec"

record user =
  user_id :: string
  user_name :: string
  email :: string
  password :: string

text \<open>\<^verbatim>\<open>Omit<Patient, 'id' | 'lesionImages'>\<close>: what the Add-Patient form hands over.\<close>

record patient_data =
  pd_name :: string
  pd_dob :: string
  pd_patientId :: "string option"
  pd_gender :: "string option"
  pd_bloodType :: "string option"
  pd_existingConditions :: "string option"

section \<open>Number to string, as in template literals\<close>

text \<open>
  \<^verbatim>\<open>`p${Date.now()}`\<close> writes the clock reading in decimal (a minus sign first when
  it is negative).
\<close>

fun string_of_nat :: "nat \<Rightarrow> string" where
  "string_of_nat n =
     (if n < 10 then [''0123456789'' ! n]
      else string_of_nat (n div 10) @ [''0123456789'' ! (n mod 10)])"

declare string_of_nat.simps [simp del]

definition string_of_int :: "int \<Rightarrow> string" where
  "string_of_int i =
     (if i < 0 then CHR ''-'' # string_of_nat (nat (- i)) else string_of_nat (nat i))"

text \<open>
  Reading a decimal text back. The program has no such function; it serves to show that
  different numbers are written differently.
\<close>

definition digit_value :: "char \<Rightarrow> nat" where
  "digit_value c = of_char c - 48"

definition nat_of_string :: "string \<Rightarrow> nat" where
  "nat_of_string s = foldl (\<lambda>a c. 10 * a + digit_value c) 0 s"

section \<open>Session state (App)\<close>

text \<open>The mock data the patient list starts from when storage holds none.\<close>

definition initialPatients :: "patient list" where
  "initialPatients =
     [\<lparr>pat_id = ''p1'', patientId = Some ''JD-001'', pat_name = ''John Doe'',
       dob = ''1985-05-23'', gender = Some ''Male'', bloodType = Some ''O+'',
       existingConditions = Some ''None reported'', lesionImages = []\<rparr>,
      \<lparr>pat_id = ''p2'', patientId = None, pat_name = ''Jane Smith'',
       dob = ''1992-11-14'', gender = None, bloodType = None,
       existingConditions = None, lesionImages = []\<rparr>]"

record app_state =
  users :: "user list"
  patients :: "patient list"
  isLoggedIn :: bool

text \<open>
  \<^verbatim>\<open>handleUpdatePatient\<close>: the updater handed to \<^verbatim>\<open>setPatients\<close>, applied to
  the previous list.
\<close>

definition handleUpdatePatient :: "patient \<Rightarrow> patient list \<Rightarrow> patient list" where
  "handleUpdatePatient updatedPatient prev =
     map (\<lambda>p. if pat_id p = pat_id updatedPatient then updatedPatient else p) prev"

text \<open>
  The same handler seen as a call that might throw. It holds no \<^verbatim>\<open>throw\<close> and
  \<^verbatim>\<open>Array.map\<close> with this callback cannot raise, so every call returns.
\<close>

definition onUpdatePatient :: "patient \<Rightarrow> patient list \<Rightarrow> thrown + patient list" where
  "onUpdatePatient updatedPatient prev = Inr (handleUpdatePatient updatedPatient prev)"

text \<open>
  \<^verbatim>\<open>handleAddPatient\<close>: the id is the letter p followed by the clock reading; the new
  patient goes in front.
\<close>

definition handleAddPatient :: "int \<Rightarrow> patient_data \<Rightarrow> patient list \<Rightarrow> patient list" where
  "handleAddPatient now patientData prev =
     \<lparr>pat_id = ''p'' @ string_of_int now, patientId = pd_patientId patientData,
      pat_name = pd_name patientData, dob = pd_dob patientData,
      gender = pd_gender patientData, bloodType = pd_bloodType patientData,
      existingConditions = pd_existingConditions patientData, lesionImages = []\<rparr> # prev"

text \<open>
  \<^verbatim>\<open>AddPatientModal.handleSave\<close>: the form is passed on only when name and date of
  birth are filled in.
\<close>

definition handleSave :: "int \<Rightarrow> patient_data \<Rightarrow> patient list \<Rightarrow> patient list" where
  "handleSave now formData prev =
     (if pd_name formData \<noteq> [] \<and> pd_dob formData \<noteq> []
      then handleAddPatient now formData prev else prev)"

text \<open>
  \<^verbatim>\<open>handleSignUp\<close>: returns the message for the form (\<open>None\<close> is \<^verbatim>\<open>null\<close>) and the
  state after the two setters.
\<close>

definition handleSignUp ::
  "int \<Rightarrow> string \<Rightarrow> string \<Rightarrow> string \<Rightarrow> app_state \<Rightarrow> string option \<times> app_state" where
  "handleSignUp now name mail pw s =
     (case find (\<lambda>u. email u = mail) (users s) of
        Some userExists \<Rightarrow> (Some ''An account with this email already exists.'', s)
      | None \<Rightarrow>
          (None,
           s\<lparr>users := users s @
                [\<lparr>user_id = ''u'' @ string_of_int now, user_name = name,
                  email = mail, password = pw\<rparr>],
             isLoggedIn := True\<rparr>))"

section \<open>Inference client (services/geminiService.ts)\<close>

text \<open>
  What goes to the capability: the model name, the ordered parts of the prompt and the
  \<^verbatim>\<open>required\<close> list of the response schema. An image part stands for the inline data
  read from the file.
\<close>

datatype part = TextPart string | ImagePart js_file

record request =
  model :: string
  parts :: "part list"
  required :: "string list"

text \<open>
  \<^verbatim>\<open>response.text\<close> as the client's \<^verbatim>\<open>try\<close> block meets it: no text at all
  (\<^verbatim>\<open>undefined\<close>, so \<^verbatim>\<open>.trim()\<close> raises), a text that \<^verbatim>\<open>JSON.parse\<close> rejects
  after trimming, or a text that it accepts, with the value it parses to.
\<close>

datatype response_text = NoText | NotJson | Parses json

datatype capability_outcome = Rejects thrown | Responds response_text

definition analysis_required :: "string list" where
  "analysis_required = [''conditionName'', ''confidence'', ''description'', ''recommendations'']"

definition comparison_required :: "string list" where
  "comparison_required =
     [''changeSummary'', ''keyObservations'', ''recommendation'',
      ''updatedConditionAssessment'', ''postComparisonCondition'']"

text \<open>\<^verbatim>\<open>!x\<close> for a text that may be absent: \<^verbatim>\<open>undefined\<close>, \<^verbatim>\<open>null\<close> and the empty text.\<close>

definition falsy :: "string option \<Rightarrow> bool" where
  "falsy x = (case x of None \<Rightarrow> True | Some s \<Rightarrow> s = [])"

definition analysis_format_message :: string where
  "analysis_format_message = ''The AI returned an unexpected response format. Please try again.''"

definition comparison_format_message :: string where
  "comparison_format_message =
     ''The AI returned an unexpected response format for the comparison. Please try again.''"

definition analysis_request :: "js_file \<Rightarrow> request" where
  "analysis_request imageFile =
     \<lparr>model = ''gemini-2.5-flash'',
      parts = [ImagePart imageFile, TextPart ''Please analyze this skin condition.''],
      required = analysis_required\<rparr>"

definition comparison_request :: "js_file \<Rightarrow> js_file \<Rightarrow> request" where
  "comparison_request imageFile1 imageFile2 =
     \<lparr>model = ''gemini-2.5-flash'',
      parts =
        [TextPart ''This is the first image (before):'', ImagePart imageFile1,
         TextPart ''This is the second image (after):'', ImagePart imageFile2,
         TextPart (''Please compare these two images of the same skin lesion '' @
                   ''and analyze the changes over time.'')],
      required = comparison_required\<rparr>"

text \<open>
  The two operations. \<open>API_KEY\<close> is \<^verbatim>\<open>process.env.API_KEY\<close>; \<open>generateContent\<close> is
  the capability: it rejects (network, service) or responds. Only the \<^verbatim>\<open>try\<close> block
  around \<^verbatim>\<open>JSON.parse\<close> turns a failure into the format error; the parsed value is
  returned as it is.
\<close>

definition analyzeSkinCondition ::
  "string option \<Rightarrow> (request \<Rightarrow> capability_outcome) \<Rightarrow> js_file \<Rightarrow> thrown + json" where
  "analyzeSkinCondition API_KEY generateContent imageFile =
     (if falsy API_KEY then Inl (ErrorObj ''API_KEY environment variable is not set.'')
      else
        (case generateContent (analysis_request imageFile) of
           Rejects e \<Rightarrow> Inl e
         | Responds NoText \<Rightarrow> Inl (ErrorObj analysis_format_message)
         | Responds NotJson \<Rightarrow> Inl (ErrorObj analysis_format_message)
         | Responds (Parses result) \<Rightarrow> Inr result))"

definition compareLesions ::
  "string option \<Rightarrow> (request \<Rightarrow> capability_outcome) \<Rightarrow> js_file \<Rightarrow> js_file \<Rightarrow> thrown + json"
  where
  "compareLesions API_KEY generateContent imageFile1 imageFile2 =
     (if falsy API_KEY then Inl (ErrorObj ''API_KEY environment variable is not set.'')
      else
        (case generateContent (comparison_request imageFile1 imageFile2) of
           Rejects e \<Rightarrow> Inl e
         | Responds NoText \<Rightarrow> Inl (ErrorObj comparison_format_message)
         | Responds NotJson \<Rightarrow> Inl (ErrorObj comparison_format_message)
         | Responds (Parses result) \<Rightarrow> Inr result))"

definition parseable :: "response_text \<Rightarrow> bool" where
  "parseable r = (case r of Parses j \<Rightarrow> True | _ \<Rightarrow> False)"

text \<open>
  The reading of "missing a required field" that the schema's \<^verbatim>\<open>required\<close> list gives:
  the payload is not an object, or one of the listed names is not among its members.
\<close>

definition missing_required :: "string list \<Rightarrow> json \<Rightarrow> bool" where
  "missing_required req j =
     (case j of JObj members \<Rightarrow> \<not> list_all (\<lambda>f. f \<in> fst ` set members) req | _ \<Rightarrow> True)"

section \<open>Patient detail view: upload and comparison workflows\<close>

record detail_view =
  isUploading :: bool
  error :: "string option"
  compareId1 :: "string option"
  compareId2 :: "string option"
  isComparing :: bool
  comparisonResult :: "json option"

text \<open>\<^verbatim>\<open>err instanceof Error ? err.message : fallback\<close>\<close>

definition message_or :: "thrown \<Rightarrow> string \<Rightarrow> string" where
  "message_or err fallback = (case err of ErrorObj message \<Rightarrow> message | NonError \<Rightarrow> fallback)"

text \<open>
  Lines 383-384 of the upload handler: the copy of the patient the handler closed over,
  with the new image in front.
\<close>

definition appendImage :: "lesion_image \<Rightarrow> patient \<Rightarrow> patient" where
  "appendImage newLesionImage patient =
     patient\<lparr>lesionImages := newLesionImage # lesionImages patient\<rparr>"

text \<open>
  \<^verbatim>\<open>handleImageUpload\<close>. The world is passed in: \<open>analyze\<close> is the outcome of awaiting
  \<^verbatim>\<open>analyzeSkinCondition(file)\<close>, \<open>fileToDataUrl\<close> that of the file reader, \<open>nowId\<close> and
  \<open>nowTs\<close> the two clock readings. The result is the view state once \<^verbatim>\<open>finally\<close> has
  run, and the arguments of the calls made to \<^verbatim>\<open>onUpdatePatient\<close>, in order.
\<close>

definition handleImageUpload ::
  "(js_file \<Rightarrow> thrown + json) \<Rightarrow> (js_file \<Rightarrow> thrown + string) \<Rightarrow> int \<Rightarrow> int \<Rightarrow>
   js_file \<Rightarrow> patient \<Rightarrow> detail_view \<Rightarrow> detail_view \<times> patient list" where
  "handleImageUpload analyze fileToDataUrl nowId nowTs f patient v =
     (case analyze f of
        Inl err \<Rightarrow>
          (v\<lparr>isUploading := False,
             error := Some (message_or err ''An unknown error occurred.'')\<rparr>, [])
      | Inr result \<Rightarrow>
          (case fileToDataUrl f of
             Inl err \<Rightarrow>
               (v\<lparr>isUploading := False,
                  error := Some (message_or err ''An unknown error occurred.'')\<rparr>, [])
           | Inr url \<Rightarrow>
               (v\<lparr>isUploading := False, error := None\<rparr>,
                [appendImage
                   \<lparr>img_id = ''img_'' @ string_of_int nowId, imageDataUrl = url,
                    img_file = Some f, analysisResult = result, timestamp = Instant nowTs\<rparr>
                   patient])))"

text \<open>
  The view inside the App: it is rendered for the patient that
  \<^verbatim>\<open>patients.find(p => p.id === selectedPatientId)\<close> returns (no view when there is
  none), and each call to \<^verbatim>\<open>onUpdatePatient\<close> runs \<^verbatim>\<open>handleUpdatePatient\<close>.
\<close>

definition upload ::
  "(js_file \<Rightarrow> thrown + json) \<Rightarrow> (js_file \<Rightarrow> thrown + string) \<Rightarrow> int \<Rightarrow> int \<Rightarrow>
   js_file \<Rightarrow> string option \<Rightarrow> patient list \<Rightarrow> detail_view \<Rightarrow> detail_view \<times> patient list"
  where
  "upload analyze fileToDataUrl nowId nowTs f selectedPatientId ps v =
     (case find (\<lambda>p. Some (pat_id p) = selectedPatientId) ps of
        None \<Rightarrow> (v, ps)
      | Some patient \<Rightarrow>
          (case handleImageUpload analyze fileToDataUrl nowId nowTs f patient v of
             (v', calls) \<Rightarrow> (v', fold handleUpdatePatient calls ps)))"

text \<open>
  \<^verbatim>\<open>dataUrlToFile\<close>: \<open>fetch\<close> is the platform reading a data URL into a blob, which fails
  on a text that is not one.
\<close>

record blob =
  blob_type :: string
  blob_data :: "nat list"

definition dataUrlToFile ::
  "(string \<Rightarrow> thrown + blob) \<Rightarrow> string \<Rightarrow> string \<Rightarrow> thrown + js_file" where
  "dataUrlToFile fetch dataUrl filename =
     (case fetch dataUrl of
        Inl e \<Rightarrow> Inl e
      | Inr b \<Rightarrow> Inr \<lparr>fname = filename, ftype = blob_type b, fdata = blob_data b\<rparr>)"

text \<open>\<^verbatim>\<open>image.file || (await dataUrlToFile(image.imageDataUrl, prefix + image.id))\<close>\<close>

definition obtainFile ::
  "(string \<Rightarrow> thrown + blob) \<Rightarrow> string \<Rightarrow> lesion_image \<Rightarrow> thrown + js_file" where
  "obtainFile fetch prefix img =
     (case img_file img of
        Some f \<Rightarrow> Inr f
      | None \<Rightarrow> dataUrlToFile fetch (imageDataUrl img) (prefix @ img_id img))"

text \<open>
  \<^verbatim>\<open>handleCompare\<close>. \<open>compare\<close> is the outcome of awaiting \<^verbatim>\<open>compareLesions\<close> on the
  two files. The result is the view state once \<^verbatim>\<open>finally\<close> has run, and the argument
  pairs of the calls made to \<^verbatim>\<open>compareLesions\<close>.
\<close>

definition comparison_failed :: "thrown \<Rightarrow> detail_view \<Rightarrow> detail_view" where
  "comparison_failed err v =
     v\<lparr>isComparing := False, comparisonResult := None,
       error := Some (message_or err ''An unknown error occurred during comparison.'')\<rparr>"

definition handleCompare ::
  "(string \<Rightarrow> thrown + blob) \<Rightarrow> (js_file \<Rightarrow> js_file \<Rightarrow> thrown + json) \<Rightarrow>
   patient \<Rightarrow> detail_view \<Rightarrow> detail_view \<times> (js_file \<times> js_file) list" where
  "handleCompare fetch compare patient v =
     (if falsy (compareId1 v) \<or> falsy (compareId2 v) then (v, [])
      else
        (case find (\<lambda>img. Some (img_id img) = compareId1 v) (lesionImages patient) of
           None \<Rightarrow> (v, [])
         | Some image1 \<Rightarrow>
             (case find (\<lambda>img. Some (img_id img) = compareId2 v) (lesionImages patient) of
                None \<Rightarrow> (v, [])
              | Some image2 \<Rightarrow>
                  (case obtainFile fetch ''img1_'' image1 of
                     Inl err \<Rightarrow> (comparison_failed err v, [])
                   | Inr file1 \<Rightarrow>
                       (case obtainFile fetch ''img2_'' image2 of
                          Inl err \<Rightarrow> (comparison_failed err v, [])
                        | Inr file2 \<Rightarrow>
                            (case compare file1 file2 of
                               Inl err \<Rightarrow> (comparison_failed err v, [(file1, file2)])
                             | Inr result \<Rightarrow>
                                 (v\<lparr>isComparing := False, comparisonResult := Some result,
                                    error := None\<rparr>,
                                  [(file1, file2)])))))))"

text \<open>
  The Compare button: its \<^verbatim>\<open>disabled\<close> attribute, the click (a disabled button does not
  run its handler), and the condition under which the notice "Please select two different
  images to compare." is rendered.
\<close>

definition compareButton_disabled :: "detail_view \<Rightarrow> bool" where
  "compareButton_disabled v =
     (falsy (compareId1 v) \<or> falsy (compareId2 v) \<or> isComparing v \<or>
      compareId1 v = compareId2 v)"

definition compareButton_click ::
  "(string \<Rightarrow> thrown + blob) \<Rightarrow> (js_file \<Rightarrow> js_file \<Rightarrow> thrown + json) \<Rightarrow>
   patient \<Rightarrow> detail_view \<Rightarrow> detail_view \<times> (js_file \<times> js_file) list" where
  "compareButton_click fetch compare patient v =
     (if compareButton_disabled v then (v, []) else handleCompare fetch compare patient v)"

definition sameImageNotice :: "detail_view \<Rightarrow> bool" where
  "sameImageNotice v =
     (\<not> falsy (compareId1 v) \<and> \<not> falsy (compareId2 v) \<and> compareId1 v = compareId2 v)"

section \<open>Dates as text (the platform's Date)\<close>

text \<open>Digits of a number, least significant last, in a field of fixed width.\<close>

definition digit_char :: "nat \<Rightarrow> char" where
  "digit_char k = ''0123456789'' ! (k mod 10)"

definition two_digits :: "nat \<Rightarrow> string" where
  "two_digits n = [digit_char (n div 10), digit_char n]"

definition three_digits :: "nat \<Rightarrow> string" where
  "three_digits n = digit_char (n div 100) # two_digits n"

definition four_digits :: "nat \<Rightarrow> string" where
  "four_digits n = digit_char (n div 1000) # three_digits n"

definition six_digits :: "nat \<Rightarrow> string" where
  "six_digits n = digit_char (n div 100000) # digit_char (n div 10000) # four_digits n"

definition digits_only :: "string \<Rightarrow> bool" where
  "digits_only s = list_all (\<lambda>c. c \<in> set ''0123456789'') s"

text \<open>
  The calendar of the language standard: the day number (days since 1 January 1970) on
  which a year starts, leap years, the year a day falls in, and the day within the year on
  which each month starts (month 0 is January; entry 12 is the length of the year).
\<close>

definition DayFromYear :: "int \<Rightarrow> int" where
  "DayFromYear y =
     365 * (y - 1970) + (y - 1969) div 4 - (y - 1901) div 100 + (y - 1601) div 400"

definition InLeapYear :: "int \<Rightarrow> bool" where
  "InLeapYear y = ((y mod 4 = 0 \<and> y mod 100 \<noteq> 0) \<or> y mod 400 = 0)"

definition YearFromDay :: "int \<Rightarrow> int" where
  "YearFromDay day =
     (let y0 = 1970 + (10000 * day + 12650) div 3652425
      in if DayFromYear y0 \<le> day then y0 else y0 - 1)"

definition month_start :: "bool \<Rightarrow> nat \<Rightarrow> int" where
  "month_start leap m =
     [0, 31, 59, 90, 120, 151, 181, 212, 243, 273, 304, 334, 365] ! m +
     (if leap \<and> 2 \<le> m then 1 else 0)"

definition MonthFromDay :: "bool \<Rightarrow> int \<Rightarrow> nat" where
  "MonthFromDay leap d =
     (if d < month_start leap 1 then 0 else if d < month_start leap 2 then 1
      else if d < month_start leap 3 then 2 else if d < month_start leap 4 then 3
      else if d < month_start leap 5 then 4 else if d < month_start leap 6 then 5
      else if d < month_start leap 7 then 6 else if d < month_start leap 8 then 7
      else if d < month_start leap 9 then 8 else if d < month_start leap 10 then 9
      else if d < month_start leap 11 then 10 else 11)"

text \<open>The fields of a date-time text, and those of a time value (UTC).\<close>

record date_fields =
  f_year :: int
  f_month :: nat
  f_day :: nat
  f_hour :: nat
  f_minute :: nat
  f_second :: nat
  f_milli :: nat

definition fields_of_time :: "int \<Rightarrow> date_fields" where
  "fields_of_time t =
     (let day = t div 86400000; ms = nat (t mod 86400000);
          y = YearFromDay day; d = day - DayFromYear y;
          m = MonthFromDay (InLeapYear y) d
      in \<lparr>f_year = y, f_month = m + 1,
          f_day = nat (d - month_start (InLeapYear y) m + 1),
          f_hour = ms div 3600000, f_minute = ms div 60000 mod 60,
          f_second = ms div 1000 mod 60, f_milli = ms mod 1000\<rparr>)"

text \<open>
  \<^verbatim>\<open>Date.prototype.toISOString\<close>: \<^verbatim>\<open>YYYY-MM-DDTHH:mm:ss.sssZ\<close>, the year with a sign
  and six digits when it is not within 0 to 9999.
\<close>

definition year_text :: "int \<Rightarrow> string" where
  "year_text y =
     (if 0 \<le> y \<and> y \<le> 9999 then four_digits (nat y)
      else (if y < 0 then CHR ''-'' else CHR ''+'') # six_digits (nat \<bar>y\<bar>))"

definition format_fields :: "date_fields \<Rightarrow> string" where
  "format_fields f =
     year_text (f_year f) @
     CHR ''-'' # two_digits (f_month f) @
     CHR ''-'' # two_digits (f_day f) @
     CHR ''T'' # two_digits (f_hour f) @
     CHR '':'' # two_digits (f_minute f) @
     CHR '':'' # two_digits (f_second f) @
     CHR ''.'' # three_digits (f_milli f) @ ''Z''"

definition toISOString :: "int \<Rightarrow> string" where
  "toISOString t = format_fields (fields_of_time t)"

text \<open>
  Reading that format back: the fields when the text has this shape, and the time value of
  fields that are legal (a text of this shape with an illegal field is an Invalid Date, and
  so is a time value out of range).
\<close>

definition read_year :: "string \<Rightarrow> (int \<times> string) option" where
  "read_year s =
     (case s of
        [] \<Rightarrow> None
      | c # r \<Rightarrow>
          if c = CHR ''+'' \<or> c = CHR ''-'' then
            (if 6 \<le> length r \<and> digits_only (take 6 r) \<and>
                \<not> (c = CHR ''-'' \<and> nat_of_string (take 6 r) = 0)
             then Some ((if c = CHR ''-'' then - int (nat_of_string (take 6 r))
                         else int (nat_of_string (take 6 r))), drop 6 r)
             else None)
          else if 4 \<le> length s \<and> digits_only (take 4 s)
          then Some (int (nat_of_string (take 4 s)), drop 4 s)
          else None)"

definition read_rest :: "int \<Rightarrow> string \<Rightarrow> date_fields option" where
  "read_rest y s =
     (case s of
        [c0, M1, M2, c1, D1, D2, c2, h1, h2, c3, m1, m2, c4, s1, s2, c5, f1, f2, f3, c6] \<Rightarrow>
          if [c0, c1, c2, c3, c4, c5, c6] = ''--T::.Z'' \<and>
             digits_only [M1, M2, D1, D2, h1, h2, m1, m2, s1, s2, f1, f2, f3]
          then Some \<lparr>f_year = y, f_month = nat_of_string [M1, M2],
                     f_day = nat_of_string [D1, D2], f_hour = nat_of_string [h1, h2],
                     f_minute = nat_of_string [m1, m2], f_second = nat_of_string [s1, s2],
                     f_milli = nat_of_string [f1, f2, f3]\<rparr>
          else None
      | _ \<Rightarrow> None)"

definition read_fields :: "string \<Rightarrow> date_fields option" where
  "read_fields s = (case read_year s of None \<Rightarrow> None | Some (y, r) \<Rightarrow> read_rest y r)"

definition legal_fields :: "date_fields \<Rightarrow> bool" where
  "legal_fields f =
     (1 \<le> f_month f \<and> f_month f \<le> 12 \<and> 1 \<le> f_day f \<and>
      int (f_day f) \<le> month_start (InLeapYear (f_year f)) (f_month f)
                        - month_start (InLeapYear (f_year f)) (f_month f - 1) \<and>
      f_minute f \<le> 59 \<and> f_second f \<le> 59 \<and>
      (f_hour f \<le> 23 \<or>
       f_hour f = 24 \<and> f_minute f = 0 \<and> f_second f = 0 \<and> f_milli f = 0))"

definition time_of_fields :: "date_fields \<Rightarrow> int" where
  "time_of_fields f =
     (DayFromYear (f_year f) + month_start (InLeapYear (f_year f)) (f_month f - 1)
        + int (f_day f) - 1) * 86400000
     + int (f_hour f) * 3600000 + int (f_minute f) * 60000 + int (f_second f) * 1000
     + int (f_milli f)"

definition TimeClip :: "int \<Rightarrow> js_date" where
  "TimeClip t = (if \<bar>t\<bar> \<le> 8640000000000000 then Instant t else InvalidDate)"

text \<open>
  \<^verbatim>\<open>new Date(text)\<close>. What a text of any other shape is read as is left to
  \<open>other_formats\<close>: the standard names further formats and leaves the rest to the engine.
\<close>

definition date_parse :: "(string \<Rightarrow> js_date) \<Rightarrow> string \<Rightarrow> js_date" where
  "date_parse other_formats s =
     (case read_fields s of
        None \<Rightarrow> other_formats s
      | Some f \<Rightarrow> if legal_fields f then TimeClip (time_of_fields f) else InvalidDate)"

section \<open>Persistence (saveState, loadState and the patients effect)\<close>

text \<open>
  The \<^verbatim>\<open>rest\<close> object of \<^verbatim>\<open>({ file, ...rest }) => rest\<close>, and the same image as
  \<^verbatim>\<open>JSON.stringify\<close> writes it: a \<^verbatim>\<open>Date\<close> member becomes the text of its
  \<^verbatim>\<open>toISOString\<close>, or \<^verbatim>\<open>null\<close> when the date is invalid.
\<close>

record serializable_image =
  r_id :: string
  r_imageDataUrl :: string
  r_analysisResult :: json
  r_timestamp :: js_date

record json_image =
  j_id :: string
  j_imageDataUrl :: string
  j_analysisResult :: json
  j_timestamp :: "string option"

text \<open>\<^verbatim>\<open>{ ...p, lesionImages: imgs }\<close>\<close>

definition with_images :: "'a patient_rec \<Rightarrow> 'b list \<Rightarrow> 'b patient_rec" where
  "with_images p imgs =
     \<lparr>pat_id = pat_id p, patientId = patientId p, pat_name = pat_name p, dob = dob p,
      gender = gender p, bloodType = bloodType p,
      existingConditions = existingConditions p, lesionImages = imgs\<rparr>"

text \<open>
  \<^verbatim>\<open>localStorage\<close>, as far as the patient list goes. An item is a text that
  \<^verbatim>\<open>JSON.parse\<close> rejects, or a document; \<^verbatim>\<open>JSON.parse\<close> gives back the document that
  \<^verbatim>\<open>JSON.stringify\<close> wrote. \<^verbatim>\<open>setItem\<close> raises when the store takes no more writes
  (quota reached, storage switched off).
\<close>

datatype 'a item = Unparseable | Doc 'a

record storage =
  patients_item :: "json_image patient_rec list item option"
  accepts_writes :: bool

definition serializablePatients :: "patient list \<Rightarrow> serializable_image patient_rec list" where
  "serializablePatients ps =
     map (\<lambda>p. with_images p
            (map (\<lambda>img. \<lparr>r_id = img_id img, r_imageDataUrl = imageDataUrl img,
                         r_analysisResult = analysisResult img,
                         r_timestamp = timestamp img\<rparr>)
               (lesionImages p))) ps"

definition toJSON :: "js_date \<Rightarrow> string option" where
  "toJSON d = (case d of Instant t \<Rightarrow> Some (toISOString t) | InvalidDate \<Rightarrow> None)"

definition JSON_stringify ::
  "serializable_image patient_rec list \<Rightarrow> json_image patient_rec list" where
  "JSON_stringify state =
     map (\<lambda>p. with_images p
            (map (\<lambda>r. \<lparr>j_id = r_id r, j_imageDataUrl = r_imageDataUrl r,
                       j_analysisResult = r_analysisResult r,
                       j_timestamp = toJSON (r_timestamp r)\<rparr>)
               (lesionImages p))) state"

text \<open>
  \<^verbatim>\<open>saveState('patients', state)\<close>: the exception of a refused write is caught and
  logged, and the store stays as it was.
\<close>

definition saveState :: "serializable_image patient_rec list \<Rightarrow> storage \<Rightarrow> storage" where
  "saveState state store =
     (if accepts_writes store
      then store\<lparr>patients_item := Some (Doc (JSON_stringify state))\<rparr>
      else store)"

text \<open>The effect that runs whenever \<^verbatim>\<open>patients\<close> has changed.\<close>

definition patients_effect :: "patient list \<Rightarrow> storage \<Rightarrow> storage" where
  "patients_effect ps store = saveState (serializablePatients ps) store"

text \<open>\<^verbatim>\<open>new Date(x)\<close> for a JSON text or \<^verbatim>\<open>null\<close>: \<^verbatim>\<open>null\<close> is read as 0.\<close>

definition newDate :: "(string \<Rightarrow> js_date) \<Rightarrow> string option \<Rightarrow> js_date" where
  "newDate other_formats x =
     (case x of None \<Rightarrow> Instant 0 | Some s \<Rightarrow> date_parse other_formats s)"

text \<open>
  \<^verbatim>\<open>loadState('patients', defaultState)\<close>: the default when the item is absent or does
  not parse; otherwise the document, each image's \<^verbatim>\<open>timestamp\<close> replaced by
  \<^verbatim>\<open>new Date(img.timestamp)\<close>. The document has no \<^verbatim>\<open>file\<close> member.
\<close>

definition loadState :: "(string \<Rightarrow> js_date) \<Rightarrow> storage \<Rightarrow> patient list \<Rightarrow> patient list" where
  "loadState other_formats store defaultState =
     (case patients_item store of
        None \<Rightarrow> defaultState
      | Some Unparseable \<Rightarrow> defaultState
      | Some (Doc state) \<Rightarrow>
          map (\<lambda>p. with_images p
                 (map (\<lambda>img. \<lparr>img_id = j_id img, imageDataUrl = j_imageDataUrl img,
                              img_file = None, analysisResult = j_analysisResult img,
                              timestamp = newDate other_formats (j_timestamp img)\<rparr>)
                    (lesionImages p))) state)"

text \<open>
  A \<^verbatim>\<open>Date\<close> that holds a time value: the language keeps time values within
  8.64e15 milliseconds of the epoch.
\<close>

definition valid_date :: "js_date \<Rightarrow> bool" where
  "valid_date d = (case d of Instant t \<Rightarrow> \<bar>t\<bar> \<le> 8640000000000000 | InvalidDate \<Rightarrow> False)"

text \<open>An engine that reads no text of another shape as a date.\<close>

definition no_other_formats :: "string \<Rightarrow> js_date" where
  "no_other_formats s = InvalidDate"

section \<open>Example data\<close>

definition unknown_patient :: patient where
  "unknown_patient =
     \<lparr>pat_id = ''p9'', patientId = None, pat_name = ''Nobody'', dob = ''2000-01-01'',
      gender = None, bloodType = None, existingConditions = None, lesionImages = []\<rparr>"

definition renamed_patient :: patient where
  "renamed_patient =
     \<lparr>pat_id = ''p1'', patientId = Some ''JD-001'', pat_name = ''John A. Doe'',
      dob = ''1985-05-23'', gender = Some ''Male'', bloodType = Some ''O+'',
      existingConditions = Some ''None reported'', lesionImages = []\<rparr>"

text \<open>Two filled-in Add-Patient forms (an untouched text field holds the empty text).\<close>

definition first_form :: patient_data where
  "first_form =
     \<lparr>pd_name = ''Ada Moss'', pd_dob = ''1990-02-03'', pd_patientId = Some [],
      pd_gender = Some ''Prefer not to say'', pd_bloodType = Some [],
      pd_existingConditions = Some []\<rparr>"

definition second_form :: patient_data where
  "second_form =
     \<lparr>pd_name = ''Ben Roe'', pd_dob = ''1971-12-30'', pd_patientId = Some ''BR-7'',
      pd_gender = Some ''Male'', pd_bloodType = Some ''A-'',
      pd_existingConditions = Some []\<rparr>"

text \<open>The session as it starts: the seeded default user, the mock patients, logged out.\<close>

definition seeded_state :: app_state where
  "seeded_state =
     \<lparr>users = [\<lparr>user_id = ''user_default_doctor'', user_name = ''Dr. Clinic'',
                email = ''doctor@clinic.com'', password = ''12345''\<rparr>],
      patients = initialPatients, isLoggedIn = False\<rparr>"

text \<open>
  Two capabilities: one answers with a text that is not JSON, the other with the empty
  object \<^verbatim>\<open>{}\<close>.
\<close>

definition garbled_capability :: "request \<Rightarrow> capability_outcome" where
  "garbled_capability req = Responds NotJson"

definition empty_object_capability :: "request \<Rightarrow> capability_outcome" where
  "empty_object_capability req = Responds (Parses (JObj []))"

definition png_file :: js_file where
  "png_file = \<lparr>fname = ''mole.png'', ftype = ''image/png'', fdata = [137, 80, 78, 71]\<rparr>"

definition reader_ok :: "js_file \<Rightarrow> thrown + string" where
  "reader_ok f = Inr ''data:image/png;base64,iVBORw==''"

definition idle_view :: detail_view where
  "idle_view =
     \<lparr>isUploading = False, error = None, compareId1 = None, compareId2 = None,
      isComparing = False, comparisonResult = None\<rparr>"

text \<open>
  A platform that reads one data URL (a PNG of three zero bytes) and refuses any other text.
\<close>

definition example_fetch :: "string \<Rightarrow> thrown + blob" where
  "example_fetch url =
     (if url = ''data:image/png;base64,AAAA''
      then Inr \<lparr>blob_type = ''image/png'', blob_data = [0, 0, 0]\<rparr>
      else Inl (ErrorObj ''Failed to fetch''))"

text \<open>
  Patient P of the comparison scenario: the newer image was reloaded from storage (no file),
  the older one was uploaded in this session; and two states of the selection.
\<close>

definition patient_P :: patient where
  "patient_P =
     \<lparr>pat_id = ''p3'', patientId = None, pat_name = ''P'', dob = ''1980-01-01'',
      gender = None, bloodType = None, existingConditions = None,
      lesionImages =
        [\<lparr>img_id = ''img_200'', imageDataUrl = ''data:image/png;base64,AAAA'',
          img_file = None, analysisResult = JNull, timestamp = Instant 200\<rparr>,
         \<lparr>img_id = ''img_100'', imageDataUrl = ''data:image/png;base64,iVBORw=='',
          img_file = Some png_file, analysisResult = JNull, timestamp = Instant 100\<rparr>]\<rparr>"

definition selecting_view :: detail_view where
  "selecting_view =
     \<lparr>isUploading = False, error = None, compareId1 = Some ''img_100'',
      compareId2 = Some ''img_200'', isComparing = False, comparisonResult = None\<rparr>"

definition same_selected_view :: detail_view where
  "same_selected_view =
     \<lparr>isUploading = False, error = None, compareId1 = Some ''img_100'',
      compareId2 = Some ''img_100'', isComparing = False, comparisonResult = None\<rparr>"

text \<open>
  The same patient with a stored payload that is no data URL, and a capability that answers
  with the texts and file names of the request parts, in their order.
\<close>

definition damaged_patient :: patient where
  "damaged_patient =
     \<lparr>pat_id = ''p3'', patientId = None, pat_name = ''P'', dob = ''1980-01-01'',
      gender = None, bloodType = None, existingConditions = None,
      lesionImages =
        [\<lparr>img_id = ''img_200'', imageDataUrl = ''data:image/png;base64,@@'',
          img_file = None, analysisResult = JNull, timestamp = Instant 200\<rparr>,
         \<lparr>img_id = ''img_100'', imageDataUrl = ''data:image/png;base64,iVBORw=='',
          img_file = Some png_file, analysisResult = JNull, timestamp = Instant 100\<rparr>]\<rparr>"

fun part_name :: "part \<Rightarrow> json" where
  "part_name (TextPart t) = JStr t"
| "part_name (ImagePart f) = JStr (fname f)"

definition echo_capability :: "request \<Rightarrow> capability_outcome" where
  "echo_capability req = Responds (Parses (JArr (map part_name (parts req))))"

text \<open>
  Stores: one whose patient list holds an image with a timestamp text that is no date, an
  empty one; and a patient list as a session with one upload holds it.
\<close>

definition legacy_store :: storage where
  "legacy_store =
     \<lparr>patients_item =
        Some (Doc [\<lparr>pat_id = ''p1'', patientId = None, pat_name = ''John Doe'',
                    dob = ''1985-05-23'', gender = None, bloodType = None,
                    existingConditions = None,
                    lesionImages =
                      [\<lparr>j_id = ''img_7'', j_imageDataUrl = ''data:image/png;base64,AAAA'',
                        j_analysisResult = JNull, j_timestamp = Some ''yesterday''\<rparr>]\<rparr>]),
      accepts_writes = True\<rparr>"

definition empty_store :: storage where
  "empty_store = \<lparr>patients_item = None, accepts_writes = True\<rparr>"

definition session_patients :: "patient list" where
  "session_patients =
     [\<lparr>pat_id = ''p1'', patientId = Some ''JD-001'', pat_name = ''John Doe'',
       dob = ''1985-05-23'', gender = Some ''Male'', bloodType = Some ''O+'',
       existingConditions = Some ''None reported'',
       lesionImages =
         [\<lparr>img_id = ''img_1700000000000'', imageDataUrl = ''data:image/png;base64,iVBORw=='',
           img_file = Some png_file, analysisResult = JObj [(''conditionName'', JStr ''Nevus'')],
           timestamp = Instant 1700000000000\<rparr>]\<rparr>,
      \<lparr>pat_id = ''p2'', patientId = None, pat_name = ''Jane Smith'',
       dob = ''1992-11-14'', gender = None, bloodType = None,
       existingConditions = None, lesionImages = []\<rparr>]"

section \<open>Frame of a patient update\<close>

lemma handleUpdatePatient_no_match:
  "\<forall>p \<in> set ps. pat_id p \<noteq> pat_id u \<Longrightarrow> handleUpdatePatient u ps = ps"
  unfolding handleUpdatePatient_def by (induction ps) simp_all

text \<open>
  C9. A patient update replaces exactly the entries whose id equals the updated patient's
  id: the list keeps its length, every other entry stays where it was with its content,
  and when no id matches the list comes back as it was. The call always returns: there is
  no error outcome, whether an id matches or not.
\<close>

theorem handleUpdatePatient_frame:
  "onUpdatePatient u ps = Inr (handleUpdatePatient u ps) \<and>
   length (handleUpdatePatient u ps) = length ps \<and>
   (\<forall>i < length ps.
      handleUpdatePatient u ps ! i = (if pat_id (ps ! i) = pat_id u then u else ps ! i)) \<and>
   ((\<forall>p \<in> set ps. pat_id p \<noteq> pat_id u) \<longrightarrow> handleUpdatePatient u ps = ps)"
proof (intro conjI allI impI)
  show "onUpdatePatient u ps = Inr (handleUpdatePatient u ps)"
    by (simp add: onUpdatePatient_def)
next
  show "length (handleUpdatePatient u ps) = length ps"
    by (simp add: handleUpdatePatient_def)
next
  fix i assume "i < length ps"
  then show "handleUpdatePatient u ps ! i = (if pat_id (ps ! i) = pat_id u then u else ps ! i)"
    by (simp add: handleUpdatePatient_def)
next
  assume "\<forall>p \<in> set ps. pat_id p \<noteq> pat_id u"
  then show "handleUpdatePatient u ps = ps"
    by (rule handleUpdatePatient_no_match)
qed

theorem handleUpdatePatient_frame_witness:
  "onUpdatePatient unknown_patient initialPatients = Inr initialPatients \<and>
   handleUpdatePatient renamed_patient initialPatients ! 0 = renamed_patient \<and>
   handleUpdatePatient renamed_patient initialPatients ! 1 = initialPatients ! 1 \<and>
   pat_id unknown_patient \<notin> set (map pat_id initialPatients) \<and>
   handleUpdatePatient unknown_patient initialPatients = initialPatients"
  using handleUpdatePatient_frame [of renamed_patient initialPatients]
    handleUpdatePatient_frame [of unknown_patient initialPatients]
  by (simp add: initialPatients_def renamed_patient_def unknown_patient_def)

section \<open>Updating a patient that is not in the list\<close>

text \<open>
  C6, as the claim states it, fails: updating with a patient whose id is in nobody's
  record returns normally. Here the mock list is updated with a patient of id p9.
\<close>

theorem onUpdatePatient_unknown_id_counterexample:
  "pat_id unknown_patient \<notin> set (map pat_id initialPatients) \<and>
   \<not> isl (onUpdatePatient unknown_patient initialPatients)"
  by (simp add: initialPatients_def unknown_patient_def onUpdatePatient_def)

text \<open>
  C6, amended. A patient update whose id matches no patient in the list does not fail: it
  returns, and the list it returns is the list it was given.
\<close>

theorem onUpdatePatient_unknown_id:
  "\<forall>p \<in> set ps. pat_id p \<noteq> pat_id u \<Longrightarrow> onUpdatePatient u ps = Inr ps"
  by (simp add: onUpdatePatient_def handleUpdatePatient_no_match)

theorem onUpdatePatient_unknown_id_witness:
  "pat_id unknown_patient \<notin> set (map pat_id initialPatients) \<and>
   onUpdatePatient unknown_patient initialPatients = Inr initialPatients"
proof -
  have h: "\<forall>p \<in> set initialPatients. pat_id p \<noteq> pat_id unknown_patient"
    by (simp add: initialPatients_def unknown_patient_def)
  from onUpdatePatient_unknown_id [OF h] h show ?thesis by auto
qed

section \<open>Adding a patient\<close>

lemma string_of_int_example: "string_of_int 1700000000000 = ''1700000000000''"
  by (simp add: string_of_int_def string_of_nat.simps)

lemma below_ten:
  "k < 10 \<Longrightarrow>
   k = 0 \<or> k = 1 \<or> k = 2 \<or> k = 3 \<or> k = 4 \<or> k = 5 \<or> k = 6 \<or> k = 7 \<or> k = 8 \<or> k = (9::nat)"
  by arith

lemma digit_value_nth: "k < 10 \<Longrightarrow> digit_value (''0123456789'' ! k) = k"
  using below_ten [of k] by (auto simp: digit_value_def)

lemma digit_not_minus: "k < 10 \<Longrightarrow> ''0123456789'' ! k \<noteq> CHR ''-''"
  using below_ten [of k] by auto

lemma nat_of_string_snoc:
  "nat_of_string (s @ [c]) = 10 * nat_of_string s + digit_value c"
  by (simp add: nat_of_string_def)

lemma nat_of_string_of_nat: "nat_of_string (string_of_nat n) = n"
proof (induction n rule: string_of_nat.induct)
  case (1 n)
  show ?case
  proof (cases "n < 10")
    case True
    then show ?thesis
      by (subst string_of_nat.simps) (simp add: nat_of_string_def digit_value_nth)
  next
    case False
    with 1 have "nat_of_string (string_of_nat (n div 10)) = n div 10" by simp
    with False show ?thesis
      by (subst string_of_nat.simps) (simp add: nat_of_string_snoc digit_value_nth)
  qed
qed

lemma string_of_nat_no_minus: "CHR ''-'' \<notin> set (string_of_nat n)"
proof (induction n rule: string_of_nat.induct)
  case (1 n)
  note d = digit_not_minus
  show ?case
  proof (cases "n < 10")
    case True
    then show ?thesis using d [of n] by (subst string_of_nat.simps) auto
  next
    case False
    with 1 have "CHR ''-'' \<notin> set (string_of_nat (n div 10))" by simp
    with False show ?thesis using d [of "n mod 10"]
      by (subst string_of_nat.simps) auto
  qed
qed

lemma string_of_nat_inj: "string_of_nat m = string_of_nat n \<Longrightarrow> m = n"
  by (metis nat_of_string_of_nat)

lemma string_of_int_inj: "string_of_int i = string_of_int j \<Longrightarrow> i = j"
proof -
  assume eq: "string_of_int i = string_of_int j"
  have neg_pos: "\<And>a b. a < 0 \<Longrightarrow> \<not> b < 0 \<Longrightarrow> string_of_int a \<noteq> string_of_int b"
  proof
    fix a b :: int assume "a < 0" "\<not> b < 0" "string_of_int a = string_of_int b"
    then have "CHR ''-'' # string_of_nat (nat (- a)) = string_of_nat (nat b)"
      by (simp add: string_of_int_def)
    then have "CHR ''-'' \<in> set (string_of_nat (nat b))"
      by (metis list.set_intros(1))
    then show False by (simp add: string_of_nat_no_minus)
  qed
  show "i = j"
  proof (cases "i < 0"; cases "j < 0")
    assume "i < 0" "j < 0"
    with eq have "nat (- i) = nat (- j)"
      by (simp add: string_of_int_def string_of_nat_inj)
    with \<open>i < 0\<close> \<open>j < 0\<close> show ?thesis by linarith
  next
    assume "i < 0" "\<not> j < 0"
    with neg_pos eq show ?thesis by blast
  next
    assume "\<not> i < 0" "j < 0"
    with neg_pos eq show ?thesis by metis
  next
    assume "\<not> i < 0" "\<not> j < 0"
    with eq have "nat i = nat j"
      by (simp add: string_of_int_def string_of_nat_inj)
    with \<open>\<not> i < 0\<close> \<open>\<not> j < 0\<close> show ?thesis by linarith
  qed
qed

text \<open>
  C7, as the claim states it, fails on the freshness of the id: the id is made from the
  clock alone, so two patients saved at the same clock reading get the same id. Here two
  valid forms are saved at the reading 1700000000000, and the id of the second patient is
  already in the list it is added to.
\<close>

theorem handleSave_same_millisecond_counterexample:
  "pd_name second_form \<noteq> [] \<and> pd_dob second_form \<noteq> [] \<and>
   pat_id (handleSave 1700000000000 second_form
             (handleSave 1700000000000 first_form initialPatients) ! 0)
     \<in> set (map pat_id (handleSave 1700000000000 first_form initialPatients))"
  by (simp add: handleSave_def handleAddPatient_def first_form_def second_form_def)

text \<open>
  C7, amended. For every addPatient call with non-empty name and dob, the new patient is at
  position 0 and the patients that were there follow in their order; its id is the letter
  p followed by the clock reading in decimal, its name and dob are the form's and it has no
  images. That id collides with no existing patient id exactly when no patient of the list
  already carries it; it is fresh, in particular, when every id in the list is the letter p
  followed by a clock reading other than the current one.
\<close>

theorem handleSave_prepends:
  assumes "pd_name d \<noteq> []" and "pd_dob d \<noteq> []"
  shows "length (handleSave now d ps) = Suc (length ps) \<and>
         tl (handleSave now d ps) = ps \<and>
         pat_id (handleSave now d ps ! 0) = ''p'' @ string_of_int now \<and>
         pat_name (handleSave now d ps ! 0) = pd_name d \<and>
         dob (handleSave now d ps ! 0) = pd_dob d \<and>
         lesionImages (handleSave now d ps ! 0) = [] \<and>
         (pat_id (handleSave now d ps ! 0) \<notin> set (map pat_id ps)
            \<longleftrightarrow> ''p'' @ string_of_int now \<notin> set (map pat_id ps)) \<and>
         ((\<forall>q \<in> set ps. \<exists>t. pat_id q = ''p'' @ string_of_int t \<and> t \<noteq> now)
            \<longrightarrow> pat_id (handleSave now d ps ! 0) \<notin> set (map pat_id ps))"
proof -
  have new: "handleSave now d ps ! 0 =
      \<lparr>pat_id = ''p'' @ string_of_int now, patientId = pd_patientId d,
       pat_name = pd_name d, dob = pd_dob d, gender = pd_gender d,
       bloodType = pd_bloodType d, existingConditions = pd_existingConditions d,
       lesionImages = []\<rparr>"
    and rest: "tl (handleSave now d ps) = ps"
    and len: "length (handleSave now d ps) = Suc (length ps)"
    using assms by (simp_all add: handleSave_def handleAddPatient_def)
  have fresh: "''p'' @ string_of_int now \<notin> set (map pat_id ps)"
    if other: "\<forall>q \<in> set ps. \<exists>t. pat_id q = ''p'' @ string_of_int t \<and> t \<noteq> now"
  proof
    assume "''p'' @ string_of_int now \<in> set (map pat_id ps)"
    then obtain q where q: "q \<in> set ps" and "pat_id q = ''p'' @ string_of_int now"
      by auto
    moreover from other q obtain t where "pat_id q = ''p'' @ string_of_int t" and "t \<noteq> now"
      by blast
    ultimately have "string_of_int t = string_of_int now" by simp
    with \<open>t \<noteq> now\<close> show False by (auto dest: string_of_int_inj)
  qed
  show ?thesis
    unfolding new using rest len fresh by simp
qed

theorem handleSave_prepends_witness:
  "pd_name first_form \<noteq> [] \<and> pd_dob first_form \<noteq> [] \<and>
   map pat_id initialPatients = [''p'' @ string_of_int 1, ''p'' @ string_of_int 2] \<and>
   tl (handleSave 1700000000000 first_form initialPatients) = initialPatients \<and>
   pat_id (handleSave 1700000000000 first_form initialPatients ! 0) = ''p1700000000000'' \<and>
   pat_id (handleSave 1700000000000 first_form initialPatients ! 0)
     \<notin> set (map pat_id initialPatients)"
proof -
  have n: "pd_name first_form \<noteq> []" and d: "pd_dob first_form \<noteq> []"
    by (simp_all add: first_form_def)
  have ids: "map pat_id initialPatients = [''p'' @ string_of_int 1, ''p'' @ string_of_int 2]"
    by (simp add: initialPatients_def string_of_int_def string_of_nat.simps)
  have others: "\<forall>q \<in> set initialPatients.
      \<exists>t. pat_id q = ''p'' @ string_of_int t \<and> t \<noteq> 1700000000000"
  proof
    fix q assume "q \<in> set initialPatients"
    then have "pat_id q \<in> set (map pat_id initialPatients)" by simp
    then have "pat_id q = ''p'' @ string_of_int 1 \<or> pat_id q = ''p'' @ string_of_int 2"
      unfolding ids by simp
    then show "\<exists>t. pat_id q = ''p'' @ string_of_int t \<and> t \<noteq> 1700000000000"
    proof
      assume "pat_id q = ''p'' @ string_of_int 1"
      moreover have "(1::int) \<noteq> 1700000000000" by simp
      ultimately show ?thesis by blast
    next
      assume "pat_id q = ''p'' @ string_of_int 2"
      moreover have "(2::int) \<noteq> 1700000000000" by simp
      ultimately show ?thesis by blast
    qed
  qed
  have inst: "tl (handleSave 1700000000000 first_form initialPatients) = initialPatients \<and>
     pat_id (handleSave 1700000000000 first_form initialPatients ! 0)
       = ''p'' @ string_of_int 1700000000000 \<and>
     pat_id (handleSave 1700000000000 first_form initialPatients ! 0)
       \<notin> set (map pat_id initialPatients)"
    using handleSave_prepends [OF n d, of 1700000000000 initialPatients] others by blast
  then have e: "pat_id (handleSave 1700000000000 first_form initialPatients ! 0)
                  = ''p1700000000000''"
    by (simp add: string_of_int_example)
  from n d ids inst e show ?thesis by blast
qed

section \<open>Signing up\<close>

text \<open>
  C10. A sign-up with an email that no user has returns no message, appends one user with
  the given name, email and password (its id is the letter u followed by the clock
  reading) and sets the logged-in flag. A sign-up with an email that some user has returns
  the message and leaves the state, users and flag, as it was.
\<close>

theorem handleSignUp_cases:
  "(mail \<notin> set (map email (users s)) \<longrightarrow>
      handleSignUp now name mail pw s =
        (None,
         s\<lparr>users := users s @
              [\<lparr>user_id = ''u'' @ string_of_int now, user_name = name,
                email = mail, password = pw\<rparr>],
           isLoggedIn := True\<rparr>)) \<and>
   (mail \<in> set (map email (users s)) \<longrightarrow>
      handleSignUp now name mail pw s =
        (Some ''An account with this email already exists.'', s))"
proof (intro conjI impI)
  assume "mail \<notin> set (map email (users s))"
  then have "find (\<lambda>u. email u = mail) (users s) = None"
    by (auto simp: find_None_iff)
  then show "handleSignUp now name mail pw s =
        (None,
         s\<lparr>users := users s @
              [\<lparr>user_id = ''u'' @ string_of_int now, user_name = name,
                email = mail, password = pw\<rparr>],
           isLoggedIn := True\<rparr>)"
    by (simp add: handleSignUp_def)
next
  assume "mail \<in> set (map email (users s))"
  then have "find (\<lambda>u. email u = mail) (users s) \<noteq> None"
    by (auto simp: find_None_iff)
  then obtain u where "find (\<lambda>u. email u = mail) (users s) = Some u"
    by auto
  then show "handleSignUp now name mail pw s =
        (Some ''An account with this email already exists.'', s)"
    by (simp add: handleSignUp_def)
qed

theorem handleSignUp_cases_witness:
  "''nurse@clinic.com'' \<notin> set (map email (users seeded_state)) \<and>
   handleSignUp 1700000000000 ''Nurse Joy'' ''nurse@clinic.com'' ''pw'' seeded_state =
     (None,
      seeded_state\<lparr>users := users seeded_state @
              [\<lparr>user_id = ''u1700000000000'', user_name = ''Nurse Joy'',
                email = ''nurse@clinic.com'', password = ''pw''\<rparr>],
           isLoggedIn := True\<rparr>) \<and>
   ''doctor@clinic.com'' \<in> set (map email (users seeded_state)) \<and>
   handleSignUp 1700000000000 ''Impostor'' ''doctor@clinic.com'' ''pw'' seeded_state =
     (Some ''An account with this email already exists.'', seeded_state)"
proof -
  have a: "''nurse@clinic.com'' \<notin> set (map email (users seeded_state))"
    and b: "''doctor@clinic.com'' \<in> set (map email (users seeded_state))"
    by (simp_all add: seeded_state_def)
  from a b
    handleSignUp_cases [of "''nurse@clinic.com''" seeded_state 1700000000000
      "''Nurse Joy''" "''pw''"]
    handleSignUp_cases [of "''doctor@clinic.com''" seeded_state 1700000000000
      "''Impostor''" "''pw''"]
  show ?thesis by (simp add: string_of_int_example)
qed

section \<open>A failed analysis adds no image\<close>

text \<open>
  C1. When the analyze call of an upload throws, the handler ends with the uploading flag
  off and the error set to the thrown error's message (to a fixed text when what was thrown
  is not an Error), it makes no call to onUpdatePatient, and the patient list of the App,
  hence every patient's lesionImages, is what it was.
\<close>

theorem upload_failed_analysis:
  assumes "analyze f = Inl err"
  shows "handleImageUpload analyze fileToDataUrl nowId nowTs f patient v =
           (v\<lparr>isUploading := False,
              error := Some (message_or err ''An unknown error occurred.'')\<rparr>, []) \<and>
         message_or (ErrorObj m) ''An unknown error occurred.'' = m \<and>
         snd (upload analyze fileToDataUrl nowId nowTs f sel ps v) = ps"
  using assms
  by (simp add: handleImageUpload_def upload_def message_or_def split: option.split)

theorem upload_failed_analysis_witness:
  "analyzeSkinCondition (Some ''key'') garbled_capability png_file
     = Inl (ErrorObj analysis_format_message) \<and>
   handleImageUpload (analyzeSkinCondition (Some ''key'') garbled_capability) reader_ok
       1700000000000 1700000000000 png_file (initialPatients ! 0) idle_view =
     (idle_view\<lparr>error := Some analysis_format_message\<rparr>, []) \<and>
   snd (upload (analyzeSkinCondition (Some ''key'') garbled_capability) reader_ok
       1700000000000 1700000000000 png_file (Some ''p1'') initialPatients idle_view)
     = initialPatients"
proof -
  have a: "analyzeSkinCondition (Some ''key'') garbled_capability png_file
             = Inl (ErrorObj analysis_format_message)"
    by (simp add: analyzeSkinCondition_def garbled_capability_def falsy_def)
  from a upload_failed_analysis
      [where analyze = "analyzeSkinCondition (Some ''key'') garbled_capability"
         and f = png_file and err = "ErrorObj analysis_format_message"
         and fileToDataUrl = reader_ok and nowId = 1700000000000 and nowTs = 1700000000000
         and patient = "initialPatients ! 0" and v = idle_view
         and sel = "Some ''p1''" and ps = initialPatients]
  show ?thesis by (simp add: idle_view_def message_or_def)
qed

section \<open>What the inference client checks in a response\<close>

text \<open>
  C4, as the claim states it, fails: a response that parses but lacks required fields is
  returned, not rejected. Here the capability answers \<^verbatim>\<open>{}\<close>, which has none of the
  required members of either schema, and both operations return it.
\<close>

theorem analyze_missing_fields_counterexample:
  "missing_required analysis_required (JObj []) \<and>
   analyzeSkinCondition (Some ''key'') empty_object_capability png_file = Inr (JObj []) \<and>
   missing_required comparison_required (JObj []) \<and>
   compareLesions (Some ''key'') empty_object_capability png_file png_file = Inr (JObj [])"
  by (simp add: missing_required_def analysis_required_def comparison_required_def
      analyzeSkinCondition_def compareLesions_def empty_object_capability_def falsy_def)

text \<open>
  C4, amended. For every response of the capability to an analyze call (a credential being
  configured), the operation fails, and then with the format error, if and only if the
  response text is absent or is not parseable JSON; a text that parses is returned as
  parsed, whatever members it has. The same holds for compare, with its own message.
\<close>

theorem format_error_iff_unparseable:
  assumes "\<not> falsy key"
    and "generateContent (analysis_request f) = Responds r"
    and "generateContent (comparison_request f1 f2) = Responds r'"
  shows "(analyzeSkinCondition key generateContent f = Inl (ErrorObj analysis_format_message)
            \<longleftrightarrow> \<not> parseable r) \<and>
         (isl (analyzeSkinCondition key generateContent f) \<longleftrightarrow> \<not> parseable r) \<and>
         (r = Parses j \<longrightarrow> analyzeSkinCondition key generateContent f = Inr j) \<and>
         (compareLesions key generateContent f1 f2 = Inl (ErrorObj comparison_format_message)
            \<longleftrightarrow> \<not> parseable r') \<and>
         (isl (compareLesions key generateContent f1 f2) \<longleftrightarrow> \<not> parseable r') \<and>
         (r' = Parses j' \<longrightarrow> compareLesions key generateContent f1 f2 = Inr j')"
  using assms
  by (cases r; cases r') (simp_all add: analyzeSkinCondition_def compareLesions_def parseable_def)

theorem format_error_iff_unparseable_witness:
  "\<not> falsy (Some ''key'') \<and>
   garbled_capability (analysis_request png_file) = Responds NotJson \<and>
   \<not> parseable NotJson \<and>
   analyzeSkinCondition (Some ''key'') garbled_capability png_file
     = Inl (ErrorObj analysis_format_message) \<and>
   compareLesions (Some ''key'') garbled_capability png_file png_file
     = Inl (ErrorObj comparison_format_message) \<and>
   empty_object_capability (analysis_request png_file) = Responds (Parses (JObj [])) \<and>
   analyzeSkinCondition (Some ''key'') empty_object_capability png_file = Inr (JObj []) \<and>
   compareLesions (Some ''key'') empty_object_capability png_file png_file = Inr (JObj [])"
proof -
  have k: "\<not> falsy (Some ''key'')" by (simp add: falsy_def)
  have g1: "garbled_capability (analysis_request png_file) = Responds NotJson"
    and g2: "garbled_capability (comparison_request png_file png_file) = Responds NotJson"
    by (simp_all add: garbled_capability_def)
  have e1: "empty_object_capability (analysis_request png_file) = Responds (Parses (JObj []))"
    and e2: "empty_object_capability (comparison_request png_file png_file)
               = Responds (Parses (JObj []))"
    by (simp_all add: empty_object_capability_def)
  from format_error_iff_unparseable [OF k g1 g2, of undefined undefined]
    format_error_iff_unparseable [OF k e1 e2, of "JObj []" "JObj []"] k g1 e1
  show ?thesis by (simp add: parseable_def)
qed

section \<open>Order of the image history\<close>

lemma find_handleUpdatePatient:
  assumes "find (\<lambda>p. Some (pat_id p) = sel) ps = Some p" and "pat_id u = pat_id p"
  shows "find (\<lambda>p. Some (pat_id p) = sel) (handleUpdatePatient u ps) = Some u"
  using assms unfolding handleUpdatePatient_def
  by (induction ps) (auto split: if_splits)

text \<open>
  An upload that succeeds puts its image in front of the images of the patient its handler
  was rendered with, and that record replaces the patient in the list.
\<close>

lemma upload_prepends:
  assumes "find (\<lambda>p. Some (pat_id p) = sel) ps = Some patient"
    and "analyze f = Inr result" and "fileToDataUrl f = Inr url"
  shows "find (\<lambda>p. Some (pat_id p) = sel)
           (snd (upload analyze fileToDataUrl nowId nowTs f sel ps v))
         = Some (patient\<lparr>lesionImages :=
                   \<lparr>img_id = ''img_'' @ string_of_int nowId, imageDataUrl = url,
                    img_file = Some f, analysisResult = result, timestamp = Instant nowTs\<rparr>
                   # lesionImages patient\<rparr>)"
proof -
  have "find (\<lambda>p. Some (pat_id p) = sel)
          (handleUpdatePatient
             (appendImage
                \<lparr>img_id = ''img_'' @ string_of_int nowId, imageDataUrl = url,
                 img_file = Some f, analysisResult = result, timestamp = Instant nowTs\<rparr>
                patient) ps)
        = Some (appendImage
                \<lparr>img_id = ''img_'' @ string_of_int nowId, imageDataUrl = url,
                 img_file = Some f, analysisResult = result, timestamp = Instant nowTs\<rparr>
                patient)"
    using assms(1) by (intro find_handleUpdatePatient) (simp_all add: appendImage_def)
  with assms show ?thesis
    by (simp add: upload_def handleImageUpload_def appendImage_def)
qed

lemma string_of_int_later: "string_of_int 1700000060000 = ''1700000060000''"
  by (simp add: string_of_int_def string_of_nat.simps)

text \<open>
  Two uploads made one after the other, the second started in the view rendered after the
  first was merged: both images are in the history, the later one first.
\<close>

lemma uploads_in_turn:
  "map (map img_id \<circ> lesionImages)
     (snd (upload (analyzeSkinCondition (Some ''key'') empty_object_capability) reader_ok
             1700000060000 1700000060000 png_file (Some ''p3'')
             (snd (upload (analyzeSkinCondition (Some ''key'') empty_object_capability)
                     reader_ok 1700000000000 1700000000000 png_file (Some ''p3'')
                     [patient_P] idle_view))
             idle_view))
   = [[''img_1700000060000'', ''img_1700000000000'', ''img_200'', ''img_100'']]"
  by (simp add: upload_def handleImageUpload_def appendImage_def handleUpdatePatient_def
      analyzeSkinCondition_def empty_object_capability_def falsy_def reader_ok_def
      patient_P_def string_of_int_example string_of_int_later)

text \<open>
  C8. The claim does not hold of the code when two uploads are in flight together. A second
  file is dropped on the uploader, which is never disabled, before the analysis of the
  first has returned; both handlers belong to the render in which patient P has the images
  img_200 and img_100. When the analyses return, each handler calls onUpdatePatient with its
  own copy of that patient, and the second call replaces the record the first had merged:
  the image appended first is gone from the history.
\<close>

theorem overlapping_uploads_lose_image:
  "map (map img_id \<circ> lesionImages)
     (fold handleUpdatePatient
        (snd (handleImageUpload (analyzeSkinCondition (Some ''key'') empty_object_capability)
                reader_ok 1700000000000 1700000000000 png_file patient_P idle_view) @
         snd (handleImageUpload (analyzeSkinCondition (Some ''key'') empty_object_capability)
                reader_ok 1700000060000 1700000060000 png_file patient_P idle_view))
        [patient_P])
   = [[''img_1700000060000'', ''img_200'', ''img_100'']]"
  by (simp add: handleImageUpload_def appendImage_def handleUpdatePatient_def
      analyzeSkinCondition_def empty_object_capability_def falsy_def reader_ok_def
      patient_P_def string_of_int_example string_of_int_later)

section \<open>What the comparison sends\<close>

lemma obtainFile_timestamp:
  "obtainFile fetch prefix (img\<lparr>timestamp := t\<rparr>) = obtainFile fetch prefix img"
  by (simp add: obtainFile_def split: option.split)

lemma find_retimed:
  "find (\<lambda>img. Some (img_id img) = c) (map (\<lambda>i. i\<lparr>timestamp := ts i\<rparr>) imgs)
     = map_option (\<lambda>i. i\<lparr>timestamp := ts i\<rparr>) (find (\<lambda>img. Some (img_id img) = c) imgs)"
  by (induction imgs) simp_all

lemma handleCompare_retimed:
  "handleCompare fetch compare
     (patient\<lparr>lesionImages := map (\<lambda>i. i\<lparr>timestamp := ts i\<rparr>) (lesionImages patient)\<rparr>) v
   = handleCompare fetch compare patient v"
  by (simp add: handleCompare_def find_retimed obtainFile_timestamp
      split: option.split sum.split)

text \<open>
  In the request that compareLesions builds, its first argument is the image announced as
  the first one (before) and its second argument the image announced as the second (after).
\<close>

lemma comparison_request_parts:
  "parts (comparison_request file1 file2) ! 0 = TextPart ''This is the first image (before):'' \<and>
   parts (comparison_request file1 file2) ! 1 = ImagePart file1 \<and>
   parts (comparison_request file1 file2) ! 2 = TextPart ''This is the second image (after):'' \<and>
   parts (comparison_request file1 file2) ! 3 = ImagePart file2"
  by (simp add: comparison_request_def)

text \<open>
  C3, as the claim states it, fails for a run in which a stored payload does not decode.
  Both selected ids are among the patient's images, the first selected image has its file,
  the second has none and its payload is no data URL: the run ends with the error of the
  failed decoding and compareLesions, which would have answered, is not called and receives
  nothing.
\<close>

theorem handleCompare_undecodable_counterexample:
  "compareId1 selecting_view = Some ''img_100'' \<and>
   compareId2 selecting_view = Some ''img_200'' \<and>
   ''img_100'' \<in> set (map img_id (lesionImages damaged_patient)) \<and>
   ''img_200'' \<in> set (map img_id (lesionImages damaged_patient)) \<and>
   handleCompare example_fetch (compareLesions (Some ''key'') echo_capability)
     damaged_patient selecting_view
     = (selecting_view\<lparr>error := Some ''Failed to fetch''\<rparr>, [])"
  by (simp add: handleCompare_def falsy_def selecting_view_def damaged_patient_def
      obtainFile_def dataUrlToFile_def example_fetch_def comparison_failed_def message_or_def)

text \<open>
  C3, amended. In a comparison run with two selected ids that are both found among the
  patient's images, a file is obtained for the first selected image and then for the second:
  the image's own file when it has one, otherwise the file decoded from its data URL.
  When both are obtained, compareLesions is applied to them in selection order, the first
  selected as its first argument (before) and the second selected as its second (after),
  and its outcome is what the run ends with: the comparison result, or the error message.
  When a decoding fails, the run ends with that error and compareLesions is not called.
  The run is the same whatever the timestamps of the images are.
\<close>

theorem handleCompare_selection_order:
  assumes "compareId1 v = Some id1" and "id1 \<noteq> []"
    and "compareId2 v = Some id2" and "id2 \<noteq> []"
    and "find (\<lambda>img. img_id img = id1) (lesionImages patient) = Some image1"
    and "find (\<lambda>img. img_id img = id2) (lesionImages patient) = Some image2"
  shows "handleCompare fetch compare patient v =
           (case obtainFile fetch ''img1_'' image1 of
              Inl err \<Rightarrow> (comparison_failed err v, [])
            | Inr file1 \<Rightarrow>
                (case obtainFile fetch ''img2_'' image2 of
                   Inl err \<Rightarrow> (comparison_failed err v, [])
                 | Inr file2 \<Rightarrow>
                     (case compare file1 file2 of
                        Inl err \<Rightarrow> (comparison_failed err v, [(file1, file2)])
                      | Inr result \<Rightarrow>
                          (v\<lparr>isComparing := False, comparisonResult := Some result,
                             error := None\<rparr>,
                           [(file1, file2)])))) \<and>
         obtainFile fetch ''img1_'' image1 =
           (case img_file image1 of
              Some f \<Rightarrow> Inr f
            | None \<Rightarrow> dataUrlToFile fetch (imageDataUrl image1) (''img1_'' @ img_id image1)) \<and>
         obtainFile fetch ''img2_'' image2 =
           (case img_file image2 of
              Some f \<Rightarrow> Inr f
            | None \<Rightarrow> dataUrlToFile fetch (imageDataUrl image2) (''img2_'' @ img_id image2)) \<and>
         handleCompare fetch compare
           (patient\<lparr>lesionImages := map (\<lambda>i. i\<lparr>timestamp := ts i\<rparr>) (lesionImages patient)\<rparr>) v
           = handleCompare fetch compare patient v"
proof (intro conjI)
  show "handleCompare fetch compare patient v =
           (case obtainFile fetch ''img1_'' image1 of
              Inl err \<Rightarrow> (comparison_failed err v, [])
            | Inr file1 \<Rightarrow>
                (case obtainFile fetch ''img2_'' image2 of
                   Inl err \<Rightarrow> (comparison_failed err v, [])
                 | Inr file2 \<Rightarrow>
                     (case compare file1 file2 of
                        Inl err \<Rightarrow> (comparison_failed err v, [(file1, file2)])
                      | Inr result \<Rightarrow>
                          (v\<lparr>isComparing := False, comparisonResult := Some result,
                             error := None\<rparr>,
                           [(file1, file2)]))))"
    using assms by (simp add: handleCompare_def falsy_def)
next
  show "obtainFile fetch ''img1_'' image1 =
           (case img_file image1 of
              Some f \<Rightarrow> Inr f
            | None \<Rightarrow> dataUrlToFile fetch (imageDataUrl image1) (''img1_'' @ img_id image1))"
    by (simp add: obtainFile_def)
next
  show "obtainFile fetch ''img2_'' image2 =
           (case img_file image2 of
              Some f \<Rightarrow> Inr f
            | None \<Rightarrow> dataUrlToFile fetch (imageDataUrl image2) (''img2_'' @ img_id image2))"
    by (simp add: obtainFile_def)
next
  show "handleCompare fetch compare
           (patient\<lparr>lesionImages := map (\<lambda>i. i\<lparr>timestamp := ts i\<rparr>) (lesionImages patient)\<rparr>) v
           = handleCompare fetch compare patient v"
    by (rule handleCompare_retimed)
qed

theorem handleCompare_selection_order_witness:
  "compareId1 selecting_view = Some ''img_100'' \<and>
   compareId2 selecting_view = Some ''img_200'' \<and>
   find (\<lambda>img. img_id img = ''img_100'') (lesionImages patient_P) = Some (lesionImages patient_P ! 1) \<and>
   find (\<lambda>img. img_id img = ''img_200'') (lesionImages patient_P) = Some (lesionImages patient_P ! 0) \<and>
   handleCompare example_fetch (compareLesions (Some ''key'') echo_capability)
       patient_P selecting_view
     = (selecting_view
          \<lparr>comparisonResult :=
             Some (JArr [JStr ''This is the first image (before):'', JStr ''mole.png'',
                         JStr ''This is the second image (after):'', JStr ''img2_img_200'',
                         JStr (''Please compare these two images of the same skin lesion '' @
                               ''and analyze the changes over time.'')])\<rparr>,
        [(png_file,
          \<lparr>fname = ''img2_img_200'', ftype = ''image/png'', fdata = [0, 0, 0]\<rparr>)])"
proof -
  have a: "compareId1 selecting_view = Some ''img_100''"
    and b: "compareId2 selecting_view = Some ''img_200''"
    by (simp_all add: selecting_view_def)
  have c: "find (\<lambda>img. img_id img = ''img_100'') (lesionImages patient_P)
             = Some (lesionImages patient_P ! 1)"
    and d: "find (\<lambda>img. img_id img = ''img_200'') (lesionImages patient_P)
             = Some (lesionImages patient_P ! 0)"
    by (simp_all add: patient_P_def)
  have n1: "''img_100'' \<noteq> []" and n2: "''img_200'' \<noteq> []" by simp_all
  have e: "compareLesions (Some ''key'') echo_capability png_file
             \<lparr>fname = ''img2_img_200'', ftype = ''image/png'', fdata = [0, 0, 0]\<rparr>
           = Inr (JArr [JStr ''This is the first image (before):'', JStr ''mole.png'',
                        JStr ''This is the second image (after):'', JStr ''img2_img_200'',
                        JStr (''Please compare these two images of the same skin lesion '' @
                              ''and analyze the changes over time.'')])"
    by (simp add: compareLesions_def echo_capability_def comparison_request_def falsy_def
        png_file_def)
  from handleCompare_selection_order [OF a n1 b n2 c d, of example_fetch
      "compareLesions (Some ''key'') echo_capability"] a b c d e
  show ?thesis
    by (simp add: patient_P_def obtainFile_def dataUrlToFile_def example_fetch_def
        selecting_view_def)
qed

section \<open>Selecting the same image twice\<close>

text \<open>
  C5. When both selected ids are equal, the Compare button is disabled: a click changes
  nothing and makes no call to compareLesions, and once an id is selected the view shows
  the notice asking for two different images.
\<close>

theorem compareButton_same_ids:
  assumes "compareId1 v = compareId2 v"
  shows "compareButton_click fetch compare patient v = (v, []) \<and>
         (\<not> falsy (compareId1 v) \<longrightarrow> sameImageNotice v)"
  using assms
  by (simp add: compareButton_click_def compareButton_disabled_def sameImageNotice_def)

theorem compareButton_same_ids_witness:
  "compareId1 same_selected_view = compareId2 same_selected_view \<and>
   \<not> falsy (compareId1 same_selected_view) \<and>
   compareButton_click example_fetch (compareLesions (Some ''key'') garbled_capability)
     patient_P same_selected_view = (same_selected_view, []) \<and>
   sameImageNotice same_selected_view"
proof -
  have a: "compareId1 same_selected_view = compareId2 same_selected_view"
    and b: "\<not> falsy (compareId1 same_selected_view)"
    by (simp_all add: same_selected_view_def falsy_def)
  from compareButton_same_ids [OF a, of example_fetch
      "compareLesions (Some ''key'') garbled_capability" patient_P] a b
  show ?thesis by simp
qed

section \<open>Saving and reloading the patient list\<close>

subsection \<open>The calendar\<close>

lemma div_step:
  fixes x n :: int
  assumes "0 < n"
  shows "(x + 1) div n = x div n + (if (x + 1) mod n = 0 then 1 else 0)"
proof -
  have x: "x = n * (x div n) + x mod n" by simp
  have r: "0 \<le> x mod n" "x mod n < n" using assms by simp_all
  show ?thesis
  proof (cases "x mod n + 1 = n")
    case True
    with x have e: "x + 1 = n * (x div n + 1) + 0"
      by (metis add.assoc add.right_neutral distrib_left mult.right_neutral)
    from assms have "(x + 1) div n = x div n + 1" and "(x + 1) mod n = 0"
      using int_div_pos_eq [OF e] int_mod_pos_eq [OF e] by simp_all
    then show ?thesis by simp
  next
    case False
    with r have b: "0 \<le> x mod n + 1" "x mod n + 1 < n" by linarith+
    from x have e: "x + 1 = n * (x div n) + (x mod n + 1)" by linarith
    from b have "(x + 1) div n = x div n" and "(x + 1) mod n = x mod n + 1"
      using int_div_pos_eq [OF e] int_mod_pos_eq [OF e] by simp_all
    with r show ?thesis by simp
  qed
qed

lemma div_bounds:
  fixes a b :: int
  assumes "0 < b"
  shows "b * (a div b) \<le> a" and "a < b * (a div b) + b"
proof -
  have "b * (a div b) + a mod b = a" by (rule mult_div_mod_eq)
  moreover have "0 \<le> a mod b" "a mod b < b" using assms by simp_all
  ultimately show "b * (a div b) \<le> a" and "a < b * (a div b) + b" by linarith+
qed

lemma mod_shift:
  fixes y :: int
  shows "(y - 1968) mod 4 = y mod 4" and "(y - 1900) mod 100 = y mod 100"
    and "(y - 1600) mod 400 = y mod 400"
proof -
  have "(y - 1968) mod 4 = (y + 4 * (- 492)) mod 4" by simp
  also have "\<dots> = y mod 4" by (rule mod_mult_self2)
  finally show "(y - 1968) mod 4 = y mod 4" .
  have "(y - 1900) mod 100 = (y + 100 * (- 19)) mod 100" by simp
  also have "\<dots> = y mod 100" by (rule mod_mult_self2)
  finally show "(y - 1900) mod 100 = y mod 100" .
  have "(y - 1600) mod 400 = (y + 400 * (- 4)) mod 400" by simp
  also have "\<dots> = y mod 400" by (rule mod_mult_self2)
  finally show "(y - 1600) mod 400 = y mod 400" .
qed

lemma mod_chain:
  fixes y :: int
  shows "y mod 400 = 0 \<Longrightarrow> y mod 100 = 0" and "y mod 100 = 0 \<Longrightarrow> y mod 4 = 0"
proof -
  assume "y mod 400 = 0"
  moreover have "y mod 400 mod 100 = y mod 100" by (rule mod_mod_cancel) simp
  ultimately show "y mod 100 = 0" by simp
next
  assume "y mod 100 = 0"
  moreover have "y mod 100 mod 4 = y mod 4" by (rule mod_mod_cancel) simp
  ultimately show "y mod 4 = 0" by simp
qed

lemma DayFromYear_Suc:
  "DayFromYear (y + 1) = DayFromYear y + (if InLeapYear y then 366 else 365)"
proof -
  have a: "(y + 1 - 1969) div 4 = (y - 1969) div 4 + (if y mod 4 = 0 then 1 else 0)"
    using div_step [of 4 "y - 1969"] mod_shift(1) [of y] by (simp add: algebra_simps)
  have b: "(y + 1 - 1901) div 100 = (y - 1901) div 100 + (if y mod 100 = 0 then 1 else 0)"
    using div_step [of 100 "y - 1901"] mod_shift(2) [of y] by (simp add: algebra_simps)
  have c: "(y + 1 - 1601) div 400 = (y - 1601) div 400 + (if y mod 400 = 0 then 1 else 0)"
    using div_step [of 400 "y - 1601"] mod_shift(3) [of y] by (simp add: algebra_simps)
  show ?thesis
    unfolding DayFromYear_def InLeapYear_def a b c
    using mod_chain [of y] by auto
qed

lemma DayFromYear_bounds:
  "146097 * y - 287811596 \<le> 400 * DayFromYear y"
  "400 * DayFromYear y \<le> 146097 * y - 287810501"
proof -
  define A where "A = (y - 1969) div 4"
  define B where "B = (y - 1901) div 100"
  define C where "C = (y - 1601) div 400"
  have a: "4 * A \<le> y - 1969" "y - 1972 \<le> 4 * A"
    unfolding A_def using div_bounds [of 4 "y - 1969"] by simp_all
  have b: "100 * B \<le> y - 1901" "y - 2000 \<le> 100 * B"
    unfolding B_def using div_bounds [of 100 "y - 1901"] by simp_all
  have c: "400 * C \<le> y - 1601" "y - 2000 \<le> 400 * C"
    unfolding C_def using div_bounds [of 400 "y - 1601"] by simp_all
  have d: "400 * DayFromYear y = 146000 * y - 287620000 + 400 * A - 400 * B + 400 * C"
    by (simp add: DayFromYear_def A_def B_def C_def)
  have a1: "100 * y - 197200 \<le> 400 * A" using a(2) by linarith
  have a2: "400 * A \<le> 100 * y - 196900" using a(1) by linarith
  have b1: "4 * y - 8000 \<le> 400 * B" using b(2) by linarith
  have b2: "400 * B \<le> 4 * y - 7604" using b(1) by linarith
  from a1 b2 c(2) d show "146097 * y - 287811596 \<le> 400 * DayFromYear y" by linarith
  from a2 b1 c(1) d show "400 * DayFromYear y \<le> 146097 * y - 287810501" by linarith
qed

lemma YearFromDay_bounds:
  "DayFromYear (YearFromDay day) \<le> day" "day < DayFromYear (YearFromDay day + 1)"
proof -
  define q where "q = (10000 * day + 12650) div 3652425"
  define y0 where "y0 = 1970 + q"
  define y1 where "y1 = y0 + 1"
  define y2 where "y2 = y0 - 1"
  have q: "3652425 * q \<le> 10000 * day + 12650" "10000 * day - 3639774 \<le> 3652425 * q"
    unfolding q_def using div_bounds [of 3652425 "10000 * day + 12650"] by simp_all
  have q1: "146097 * q \<le> 400 * day + 506" using q(1) by linarith
  have q2: "400 * day - 145590 \<le> 146097 * q" using q(2) by linarith
  have e1: "146097 * y1 = 146097 * q + 287957187" by (simp add: y1_def y0_def)
  have e2: "146097 * y2 = 146097 * q + 287664993" by (simp add: y2_def y0_def)
  have up: "day < DayFromYear y1"
    using DayFromYear_bounds(1) [of y1] q2 e1 by linarith
  have down: "DayFromYear y2 \<le> day"
    using DayFromYear_bounds(2) [of y2] q1 e2 by linarith
  have "DayFromYear (YearFromDay day) \<le> day \<and> day < DayFromYear (YearFromDay day + 1)"
  proof (cases "DayFromYear y0 \<le> day")
    case True
    then have "YearFromDay day = y0"
      by (simp add: YearFromDay_def q_def y0_def Let_def)
    with True up show ?thesis by (simp add: y1_def)
  next
    case False
    then have "YearFromDay day = y2"
      by (simp add: YearFromDay_def q_def y0_def y2_def Let_def)
    with False down show ?thesis by (simp add: y2_def)
  qed
  then show "DayFromYear (YearFromDay day) \<le> day" "day < DayFromYear (YearFromDay day + 1)"
    by simp_all
qed

lemma YearFromDay_range:
  assumes "\<bar>day\<bar> \<le> 100000000"
  shows "- 271821 \<le> YearFromDay day" and "YearFromDay day \<le> 275760"
proof -
  define y where "y = YearFromDay day"
  define y1 where "y1 = y + 1"
  from assms have d: "- 100000000 \<le> day" "day \<le> 100000000" by linarith+
  from YearFromDay_bounds(1) [of day] DayFromYear_bounds(1) [of y] d(2)
  show "YearFromDay day \<le> 275760" unfolding y_def by linarith
  have e: "146097 * y1 = 146097 * y + 146097" by (simp add: y1_def)
  from YearFromDay_bounds(2) [of day] have "day < DayFromYear y1" by (simp add: y1_def y_def)
  with DayFromYear_bounds(2) [of y1] d(1) e
  show "- 271821 \<le> YearFromDay day" unfolding y_def by linarith
qed

lemma month_start_values:
  "month_start leap 0 = 0"
  "month_start leap 1 = 31"
  "month_start leap (Suc 0) = 31"
  "month_start leap 2 = (if leap then 60 else 59)"
  "month_start leap (Suc (Suc 0)) = (if leap then 60 else 59)"
  "month_start leap 3 = (if leap then 91 else 90)"
  "month_start leap 4 = (if leap then 121 else 120)"
  "month_start leap 5 = (if leap then 152 else 151)"
  "month_start leap 6 = (if leap then 182 else 181)"
  "month_start leap 7 = (if leap then 213 else 212)"
  "month_start leap 8 = (if leap then 244 else 243)"
  "month_start leap 9 = (if leap then 274 else 273)"
  "month_start leap 10 = (if leap then 305 else 304)"
  "month_start leap 11 = (if leap then 335 else 334)"
  "month_start leap 12 = (if leap then 366 else 365)"
  by (simp_all add: month_start_def)

lemma MonthFromDay_cases:
  "MonthFromDay leap d \<in> {0, 1, 2, 3, 4, 5, 6, 7, 8, 9, 10, 11}"
  by (simp add: MonthFromDay_def)

lemma MonthFromDay_bounds:
  assumes "0 \<le> d" and "d < (if leap then 366 else 365)"
  shows "MonthFromDay leap d \<le> 11"
    and "month_start leap (MonthFromDay leap d) \<le> d"
    and "d < month_start leap (MonthFromDay leap d + 1)"
    and "month_start leap (MonthFromDay leap d + 1) - month_start leap (MonthFromDay leap d) \<le> 31"
proof -
  show "MonthFromDay leap d \<le> 11"
    by (simp add: MonthFromDay_def)
  show "month_start leap (MonthFromDay leap d) \<le> d"
    using assms(1) by (cases leap) (simp_all add: MonthFromDay_def month_start_values)
  show "d < month_start leap (MonthFromDay leap d + 1)"
    using assms(2) by (cases leap) (simp_all add: MonthFromDay_def month_start_values)
  show "month_start leap (MonthFromDay leap d + 1) - month_start leap (MonthFromDay leap d) \<le> 31"
    using MonthFromDay_cases [of leap d] by (auto simp: month_start_values)
qed
lemma day_in_year:
  "0 \<le> day - DayFromYear (YearFromDay day)"
  "day - DayFromYear (YearFromDay day) < (if InLeapYear (YearFromDay day) then 366 else 365)"
  using YearFromDay_bounds [of day] DayFromYear_Suc [of "YearFromDay day"]
  by (auto split: if_splits)

lemma legal_fields_of_time: "legal_fields (fields_of_time t)"
proof -
  define day where "day = t div 86400000"
  define ms where "ms = nat (t mod 86400000)"
  define y where "y = YearFromDay day"
  define d where "d = day - DayFromYear y"
  define m where "m = MonthFromDay (InLeapYear y) d"
  have ms: "ms < 86400000" by (simp add: ms_def nat_less_iff)
  note diy = day_in_year [of day, folded y_def, folded d_def]
  note mb = MonthFromDay_bounds [OF diy, folded m_def]
  have f: "fields_of_time t =
      \<lparr>f_year = y, f_month = m + 1,
       f_day = nat (d - month_start (InLeapYear y) m + 1),
       f_hour = ms div 3600000, f_minute = ms div 60000 mod 60,
       f_second = ms div 1000 mod 60, f_milli = ms mod 1000\<rparr>"
    by (simp add: fields_of_time_def Let_def day_def ms_def y_def d_def m_def)
  have h: "ms div 3600000 \<le> 23" using ms by simp
  have mi: "ms div 60000 mod 60 \<le> 59"
    using mod_less_divisor [of 60 "ms div 60000"] by linarith
  have se: "ms div 1000 mod 60 \<le> 59"
    using mod_less_divisor [of 60 "ms div 1000"] by linarith
  have dy: "1 \<le> nat (d - month_start (InLeapYear y) m + 1)"
    and dm: "int (nat (d - month_start (InLeapYear y) m + 1))
               \<le> month_start (InLeapYear y) (m + 1) - month_start (InLeapYear y) m"
    using mb(2,3) by linarith+
  show ?thesis
    unfolding f legal_fields_def using mb(1) h mi se dy dm by simp
qed

lemma time_of_fields_of_time: "time_of_fields (fields_of_time t) = t"
proof -
  define day where "day = t div 86400000"
  define ms where "ms = nat (t mod 86400000)"
  define y where "y = YearFromDay day"
  define d where "d = day - DayFromYear y"
  define m where "m = MonthFromDay (InLeapYear y) d"
  note diy = day_in_year [of day, folded y_def, folded d_def]
  note mb = MonthFromDay_bounds [OF diy, folded m_def]
  have f: "fields_of_time t =
      \<lparr>f_year = y, f_month = m + 1,
       f_day = nat (d - month_start (InLeapYear y) m + 1),
       f_hour = ms div 3600000, f_minute = ms div 60000 mod 60,
       f_second = ms div 1000 mod 60, f_milli = ms mod 1000\<rparr>"
    by (simp add: fields_of_time_def Let_def day_def ms_def y_def d_def m_def)
  have tod: "ms div 3600000 * 3600000 + ms div 60000 mod 60 * 60000
               + ms div 1000 mod 60 * 1000 + ms mod 1000 = ms"
  proof -
    have e1: "ms div 60000 = ms div 1000 div 60" and e2: "ms div 3600000 = ms div 60000 div 60"
      by (simp_all add: div_mult2_eq [symmetric])
    have a: "ms = ms div 1000 * 1000 + ms mod 1000" by simp
    have b: "ms div 1000 = ms div 60000 * 60 + ms div 1000 mod 60" unfolding e1 by simp
    have c: "ms div 60000 = ms div 3600000 * 60 + ms div 60000 mod 60" unfolding e2 by simp
    from a b c show ?thesis by linarith
  qed
  have "int ms = t mod 86400000" by (simp add: ms_def)
  moreover have "t = day * 86400000 + t mod 86400000" by (simp add: day_def)
  moreover have "DayFromYear y + month_start (InLeapYear y) m
      + int (nat (d - month_start (InLeapYear y) m + 1)) - 1 = day"
    using mb by (simp add: d_def)
  moreover have "int (ms div 3600000) * 3600000 + int (ms div 60000 mod 60) * 60000
               + int (ms div 1000 mod 60) * 1000 + int (ms mod 1000) = int ms"
  proof -
    have "int (ms div 3600000 * 3600000 + ms div 60000 mod 60 * 60000
               + ms div 1000 mod 60 * 1000 + ms mod 1000) = int ms"
      by (simp only: tod)
    then show ?thesis by simp
  qed
  ultimately show ?thesis
    unfolding f time_of_fields_def by simp
qed

lemma digit_char_facts:
  "digit_value (digit_char k) = k mod 10"
  "digit_char k \<in> set ''0123456789''"
  "digit_char k \<noteq> CHR ''-''"
  "digit_char k \<noteq> CHR ''+''"
proof -
  have "k mod 10 < 10" by simp
  from below_ten [OF this]
  show "digit_value (digit_char k) = k mod 10"
    and "digit_char k \<in> set ''0123456789''"
    and "digit_char k \<noteq> CHR ''-''"
    and "digit_char k \<noteq> CHR ''+''"
    unfolding digit_char_def by (auto simp: digit_value_def)
qed

lemma nat_of_string_Cons:
  "nat_of_string [a, b] = 10 * digit_value a + digit_value b"
  "nat_of_string [a, b, c] = 100 * digit_value a + 10 * digit_value b + digit_value c"
  "nat_of_string [a, b, c, d] =
     1000 * digit_value a + 100 * digit_value b + 10 * digit_value c + digit_value d"
  "nat_of_string [a, b, c, d, e, f] =
     100000 * digit_value a + 10000 * digit_value b + 1000 * digit_value c
     + 100 * digit_value d + 10 * digit_value e + digit_value f"
  by (simp_all add: nat_of_string_def)

lemma split_digits:
  fixes n :: nat
  shows "n = n div 10 * 10 + n mod 10"
    and "n div 10 = n div 100 * 10 + n div 10 mod 10"
    and "n div 100 = n div 1000 * 10 + n div 100 mod 10"
    and "n div 1000 = n div 10000 * 10 + n div 1000 mod 10"
    and "n div 10000 = n div 100000 * 10 + n div 10000 mod 10"
    and "n div 100000 = n div 1000000 * 10 + n div 100000 mod 10"
proof -
  show "n = n div 10 * 10 + n mod 10" by simp
  have "n div 100 = n div 10 div 10" by (simp add: div_mult2_eq [symmetric])
  then show "n div 10 = n div 100 * 10 + n div 10 mod 10" by simp
  have "n div 1000 = n div 100 div 10" by (simp add: div_mult2_eq [symmetric])
  then show "n div 100 = n div 1000 * 10 + n div 100 mod 10" by simp
  have "n div 10000 = n div 1000 div 10" by (simp add: div_mult2_eq [symmetric])
  then show "n div 1000 = n div 10000 * 10 + n div 1000 mod 10" by simp
  have "n div 100000 = n div 10000 div 10" by (simp add: div_mult2_eq [symmetric])
  then show "n div 10000 = n div 100000 * 10 + n div 10000 mod 10" by simp
  have "n div 1000000 = n div 100000 div 10" by (simp add: div_mult2_eq [symmetric])
  then show "n div 100000 = n div 1000000 * 10 + n div 100000 mod 10" by simp
qed

lemma digits_value:
  "nat_of_string (two_digits n) = 10 * (n div 10 mod 10) + n mod 10"
  "nat_of_string (three_digits n) = 100 * (n div 100 mod 10) + 10 * (n div 10 mod 10) + n mod 10"
  "nat_of_string (four_digits n) =
     1000 * (n div 1000 mod 10) + 100 * (n div 100 mod 10) + 10 * (n div 10 mod 10) + n mod 10"
  "nat_of_string (six_digits n) =
     100000 * (n div 100000 mod 10) + 10000 * (n div 10000 mod 10)
     + 1000 * (n div 1000 mod 10) + 100 * (n div 100 mod 10) + 10 * (n div 10 mod 10) + n mod 10"
  by (simp_all add: six_digits_def four_digits_def three_digits_def two_digits_def
      nat_of_string_Cons digit_char_facts)

lemma read_two: "n < 100 \<Longrightarrow> nat_of_string (two_digits n) = n"
proof -
  assume "n < 100"
  then have "n div 100 = 0" by simp
  with split_digits(1,2) [of n] show ?thesis
    unfolding digits_value by linarith
qed

lemma read_three: "n < 1000 \<Longrightarrow> nat_of_string (three_digits n) = n"
proof -
  assume "n < 1000"
  then have "n div 1000 = 0" by simp
  with split_digits(1,2,3) [of n] show ?thesis
    unfolding digits_value by linarith
qed

lemma read_four: "n < 10000 \<Longrightarrow> nat_of_string (four_digits n) = n"
proof -
  assume "n < 10000"
  then have "n div 10000 = 0" by simp
  with split_digits(1,2,3,4) [of n] show ?thesis
    unfolding digits_value by linarith
qed

lemma read_six: "n < 1000000 \<Longrightarrow> nat_of_string (six_digits n) = n"
proof -
  assume "n < 1000000"
  then have "n div 1000000 = 0" by simp
  with split_digits [of n] show ?thesis
    unfolding digits_value by linarith
qed

lemma digits_only_digits:
  "digits_only (two_digits n)" "digits_only (three_digits n)"
  "digits_only (four_digits n)" "digits_only (six_digits n)"
  using digit_char_facts(2)
  by (simp_all add: digits_only_def six_digits_def four_digits_def three_digits_def
      two_digits_def)

lemma digits_length:
  "length (two_digits n) = 2" "length (three_digits n) = 3"
  "length (four_digits n) = 4" "length (six_digits n) = 6"
  by (simp_all add: six_digits_def four_digits_def three_digits_def two_digits_def)

lemma read_year_text:
  assumes "- 1000000 < y" and "y < 1000000"
  shows "read_year (year_text y @ r) = Some (y, r)"
proof (cases "0 \<le> y \<and> y \<le> 9999")
  case True
  then have n: "nat y < 10000" by linarith
  have t: "year_text y = four_digits (nat y)" using True by (simp add: year_text_def)
  obtain a b c d where f: "four_digits (nat y) = [a, b, c, d]"
    and a: "a = digit_char (nat y div 1000)"
    by (simp add: four_digits_def three_digits_def two_digits_def)
  have na: "a \<noteq> CHR ''+''" "a \<noteq> CHR ''-''" unfolding a by (rule digit_char_facts)+
  have "digits_only [a, b, c, d]" "nat_of_string [a, b, c, d] = nat y"
    using digits_only_digits(3) [of "nat y"] read_four [OF n] by (simp_all add: f)
  with na True show ?thesis
    unfolding t f by (simp add: read_year_def)
next
  case False
  define n where "n = nat \<bar>y\<bar>"
  from assms have n: "n < 1000000" unfolding n_def by linarith
  from False have n0: "0 < n" unfolding n_def by linarith
  have t: "year_text y = (if y < 0 then CHR ''-'' else CHR ''+'') # six_digits n"
    using False by (auto simp: year_text_def n_def)
  obtain a b c d e f where s: "six_digits n = [a, b, c, d, e, f]"
    by (simp add: six_digits_def four_digits_def three_digits_def two_digits_def)
  have "digits_only [a, b, c, d, e, f]" "nat_of_string [a, b, c, d, e, f] = n"
    using digits_only_digits(4) [of n] read_six [OF n] by (simp_all add: s)
  moreover have "(if y < 0 then - int n else int n) = y" unfolding n_def by simp
  ultimately show ?thesis
    unfolding t s using n0 by (auto simp: read_year_def split: if_splits)
qed

lemma read_rest_format:
  assumes "f_month f < 100" "f_day f < 100" "f_hour f < 100" "f_minute f < 100"
    "f_second f < 100" "f_milli f < 1000"
  shows "read_rest (f_year f)
           (CHR ''-'' # two_digits (f_month f) @
            CHR ''-'' # two_digits (f_day f) @
            CHR ''T'' # two_digits (f_hour f) @
            CHR '':'' # two_digits (f_minute f) @
            CHR '':'' # two_digits (f_second f) @
            CHR ''.'' # three_digits (f_milli f) @ ''Z'') = Some f"
proof -
  obtain M1 M2 where M: "two_digits (f_month f) = [M1, M2]" by (simp add: two_digits_def)
  obtain D1 D2 where D: "two_digits (f_day f) = [D1, D2]" by (simp add: two_digits_def)
  obtain h1 h2 where h: "two_digits (f_hour f) = [h1, h2]" by (simp add: two_digits_def)
  obtain m1 m2 where m: "two_digits (f_minute f) = [m1, m2]" by (simp add: two_digits_def)
  obtain s1 s2 where s: "two_digits (f_second f) = [s1, s2]" by (simp add: two_digits_def)
  obtain f1 f2 f3 where ms: "three_digits (f_milli f) = [f1, f2, f3]"
    by (simp add: three_digits_def two_digits_def)
  have v: "nat_of_string [M1, M2] = f_month f" "nat_of_string [D1, D2] = f_day f"
    "nat_of_string [h1, h2] = f_hour f" "nat_of_string [m1, m2] = f_minute f"
    "nat_of_string [s1, s2] = f_second f" "nat_of_string [f1, f2, f3] = f_milli f"
    using assms read_two read_three by (simp_all flip: M D h m s ms)
  have "digits_only [M1, M2]" "digits_only [D1, D2]" "digits_only [h1, h2]"
    "digits_only [m1, m2]" "digits_only [s1, s2]" "digits_only [f1, f2, f3]"
    using digits_only_digits by (simp_all flip: M D h m s ms)
  then have d: "digits_only [M1, M2, D1, D2, h1, h2, m1, m2, s1, s2, f1, f2, f3]"
    by (simp add: digits_only_def)
  show ?thesis
    unfolding M D h m s ms using d by (simp add: read_rest_def v)
qed

lemma read_format_fields:
  assumes "- 1000000 < f_year f" "f_year f < 1000000"
    "f_month f < 100" "f_day f < 100" "f_hour f < 100" "f_minute f < 100"
    "f_second f < 100" "f_milli f < 1000"
  shows "read_fields (format_fields f) = Some f"
  using read_year_text [OF assms(1,2)] read_rest_format [OF assms(3-8)]
  by (simp add: read_fields_def format_fields_def)

lemma fields_of_time_ranges:
  "f_year (fields_of_time t) = YearFromDay (t div 86400000)"
  "f_month (fields_of_time t) < 100" "f_day (fields_of_time t) < 100"
  "f_hour (fields_of_time t) < 100" "f_minute (fields_of_time t) < 100"
  "f_second (fields_of_time t) < 100" "f_milli (fields_of_time t) < 1000"
proof -
  define day where "day = t div 86400000"
  define ms where "ms = nat (t mod 86400000)"
  define y where "y = YearFromDay day"
  define d where "d = day - DayFromYear y"
  define m where "m = MonthFromDay (InLeapYear y) d"
  have ms: "ms < 86400000" by (simp add: ms_def nat_less_iff)
  note diy = day_in_year [of day, folded y_def, folded d_def]
  note mb = MonthFromDay_bounds [OF diy, folded m_def]
  have f: "fields_of_time t =
      \<lparr>f_year = y, f_month = m + 1,
       f_day = nat (d - month_start (InLeapYear y) m + 1),
       f_hour = ms div 3600000, f_minute = ms div 60000 mod 60,
       f_second = ms div 1000 mod 60, f_milli = ms mod 1000\<rparr>"
    by (simp add: fields_of_time_def Let_def day_def ms_def y_def d_def m_def)
  show "f_year (fields_of_time t) = YearFromDay (t div 86400000)"
    unfolding f by (simp add: y_def day_def)
  show "f_month (fields_of_time t) < 100" unfolding f using mb(1) by simp
  show "f_day (fields_of_time t) < 100" unfolding f using mb(2,3,4) by simp
  show "f_hour (fields_of_time t) < 100" unfolding f using ms by simp
  show "f_minute (fields_of_time t) < 100"
    unfolding f using mod_less_divisor [of 60 "ms div 60000"] by simp
  show "f_second (fields_of_time t) < 100"
    unfolding f using mod_less_divisor [of 60 "ms div 1000"] by simp
  show "f_milli (fields_of_time t) < 1000" unfolding f by simp
qed

lemma read_toISOString:
  assumes "\<bar>t\<bar> \<le> 8640000000000000"
  shows "read_fields (toISOString t) = Some (fields_of_time t)"
proof -
  have "- 100000000 \<le> t div 86400000" "t div 86400000 \<le> 100000000"
    using assms div_bounds [of 86400000 t] by linarith+
  then have "\<bar>t div 86400000\<bar> \<le> 100000000" by linarith
  from YearFromDay_range [OF this]
  have "- 1000000 < f_year (fields_of_time t)" "f_year (fields_of_time t) < 1000000"
    unfolding fields_of_time_ranges(1) by linarith+
  then show ?thesis
    unfolding toISOString_def
    by (rule read_format_fields) (rule fields_of_time_ranges)+
qed

lemma date_parse_toISOString:
  assumes "\<bar>t\<bar> \<le> 8640000000000000"
  shows "date_parse other_formats (toISOString t) = Instant t"
  using assms
  by (simp add: date_parse_def read_toISOString legal_fields_of_time
      time_of_fields_of_time TimeClip_def)

text \<open>Three time values as \<^verbatim>\<open>toISOString\<close> writes them.\<close>

lemma toISOString_example: "toISOString 1700000000000 = ''2023-11-14T22:13:20.000Z''"
proof -
  have y: "YearFromDay 19675 = 2023" by (simp add: YearFromDay_def DayFromYear_def Let_def)
  have d: "DayFromYear 2023 = 19358" by (simp add: DayFromYear_def)
  have l: "\<not> InLeapYear 2023" by (simp add: InLeapYear_def)
  have m: "MonthFromDay False 317 = 10" by (simp add: MonthFromDay_def month_start_values)
  have "fields_of_time 1700000000000 =
          \<lparr>f_year = 2023, f_month = 11, f_day = 14, f_hour = 22, f_minute = 13,
           f_second = 20, f_milli = 0\<rparr>"
    by (simp add: fields_of_time_def y d l m month_start_values Let_def)
  then show ?thesis
    by (simp add: toISOString_def format_fields_def year_text_def four_digits_def
        three_digits_def two_digits_def digit_char_def)
qed

lemma toISOString_before_epoch: "toISOString (- 1) = ''1969-12-31T23:59:59.999Z''"
proof -
  have y: "YearFromDay (- 1) = 1969" by (simp add: YearFromDay_def DayFromYear_def Let_def)
  have d: "DayFromYear 1969 = - 365" by (simp add: DayFromYear_def)
  have l: "\<not> InLeapYear 1969" by (simp add: InLeapYear_def)
  have m: "MonthFromDay False 364 = 11" by (simp add: MonthFromDay_def month_start_values)
  have "fields_of_time (- 1) =
          \<lparr>f_year = 1969, f_month = 12, f_day = 31, f_hour = 23, f_minute = 59,
           f_second = 59, f_milli = 999\<rparr>"
    by (simp add: fields_of_time_def y d l m month_start_values Let_def)
  then show ?thesis
    by (simp add: toISOString_def format_fields_def year_text_def four_digits_def
        three_digits_def two_digits_def digit_char_def)
qed

lemma toISOString_last: "toISOString 8640000000000000 = ''+275760-09-13T00:00:00.000Z''"
proof -
  have y: "YearFromDay 100000000 = 275760"
    by (simp add: YearFromDay_def DayFromYear_def Let_def)
  have d: "DayFromYear 275760 = 99999744" by (simp add: DayFromYear_def)
  have l: "InLeapYear 275760" by (simp add: InLeapYear_def)
  have m: "MonthFromDay True 256 = 8" by (simp add: MonthFromDay_def month_start_values)
  have "fields_of_time 8640000000000000 =
          \<lparr>f_year = 275760, f_month = 9, f_day = 13, f_hour = 0, f_minute = 0,
           f_second = 0, f_milli = 0\<rparr>"
    by (simp add: fields_of_time_def y d l m month_start_values Let_def)
  then show ?thesis
    by (simp add: toISOString_def format_fields_def year_text_def six_digits_def
        four_digits_def three_digits_def two_digits_def digit_char_def)
qed

subsection \<open>The round trip\<close>

lemma reload_image:
  assumes "valid_date (timestamp img)"
  shows "\<lparr>img_id = img_id img, imageDataUrl = imageDataUrl img, img_file = None,
          analysisResult = analysisResult img,
          timestamp = newDate other_formats (toJSON (timestamp img))\<rparr>
         = img\<lparr>img_file := None\<rparr>"
proof (cases "timestamp img")
  case (Instant t)
  with assms have "\<bar>t\<bar> \<le> 8640000000000000" by (simp add: valid_date_def)
  then have "date_parse other_formats (toISOString t) = Instant t"
    by (rule date_parse_toISOString)
  with Instant show ?thesis by (simp add: newDate_def toJSON_def)
next
  case InvalidDate
  with assms show ?thesis by (simp add: valid_date_def)
qed

text \<open>
  C2, as the claim states it, fails for a list that holds an invalid date. The stored list
  here has an image whose timestamp text is no date: loading it gives an Invalid Date;
  saving that list writes \<^verbatim>\<open>null\<close> for the timestamp, and reloading reads
  \<^verbatim>\<open>null\<close> as the instant 0.
\<close>

theorem save_reload_invalid_date_counterexample:
  "map (map timestamp \<circ> lesionImages)
     (loadState no_other_formats legacy_store initialPatients) = [[InvalidDate]] \<and>
   map (map timestamp \<circ> lesionImages)
     (loadState no_other_formats
        (patients_effect
           (loadState no_other_formats legacy_store initialPatients) legacy_store)
        initialPatients) = [[Instant 0]]"
  by (simp add: loadState_def patients_effect_def saveState_def JSON_stringify_def
      serializablePatients_def with_images_def legacy_store_def newDate_def toJSON_def
      date_parse_def read_fields_def read_year_def digits_only_def no_other_formats_def)

text \<open>
  C2, amended. For every patient list whose image timestamps are all valid dates: saving it
  (each image's file stripped, the store accepting the write) and reloading it yields the
  list it was, except that no image has a file; each timestamp, stored as the text of its
  \<^verbatim>\<open>toISOString\<close>, is read back as the instant it was. This holds whatever the engine
  makes of texts in other formats.
\<close>

theorem save_reload_roundtrip:
  assumes "accepts_writes store"
    and "\<forall>p \<in> set ps. \<forall>img \<in> set (lesionImages p). valid_date (timestamp img)"
  shows "loadState other_formats (patients_effect ps store) defaultState =
           map (\<lambda>p. p\<lparr>lesionImages := map (\<lambda>img. img\<lparr>img_file := None\<rparr>) (lesionImages p)\<rparr>) ps"
proof -
  have "loadState other_formats (patients_effect ps store) defaultState =
          map (\<lambda>p. p\<lparr>lesionImages :=
                 map (\<lambda>img. \<lparr>img_id = img_id img, imageDataUrl = imageDataUrl img,
                        img_file = None, analysisResult = analysisResult img,
                        timestamp = newDate other_formats (toJSON (timestamp img))\<rparr>)
                   (lesionImages p)\<rparr>) ps"
    using assms(1)
    by (simp add: loadState_def patients_effect_def saveState_def JSON_stringify_def
        serializablePatients_def with_images_def comp_def)
  also have "\<dots> = map (\<lambda>p. p\<lparr>lesionImages := map (\<lambda>img. img\<lparr>img_file := None\<rparr>) (lesionImages p)\<rparr>) ps"
  proof (rule map_cong [OF refl])
    fix p assume p: "p \<in> set ps"
    have "map (\<lambda>img. \<lparr>img_id = img_id img, imageDataUrl = imageDataUrl img,
                        img_file = None, analysisResult = analysisResult img,
                        timestamp = newDate other_formats (toJSON (timestamp img))\<rparr>)
                   (lesionImages p) = map (\<lambda>img. img\<lparr>img_file := None\<rparr>) (lesionImages p)"
    proof (rule map_cong [OF refl])
      fix img assume "img \<in> set (lesionImages p)"
      with p assms(2) have "valid_date (timestamp img)" by blast
      then show "\<lparr>img_id = img_id img, imageDataUrl = imageDataUrl img,
                        img_file = None, analysisResult = analysisResult img,
                        timestamp = newDate other_formats (toJSON (timestamp img))\<rparr>
                 = img\<lparr>img_file := None\<rparr>"
        by (rule reload_image)
    qed
    then show "p\<lparr>lesionImages :=
                 map (\<lambda>img. \<lparr>img_id = img_id img, imageDataUrl = imageDataUrl img,
                        img_file = None, analysisResult = analysisResult img,
                        timestamp = newDate other_formats (toJSON (timestamp img))\<rparr>)
                   (lesionImages p)\<rparr> = p\<lparr>lesionImages := map (\<lambda>img. img\<lparr>img_file := None\<rparr>) (lesionImages p)\<rparr>"
      by simp
  qed
  finally show ?thesis .
qed

theorem save_reload_roundtrip_witness:
  "accepts_writes empty_store \<and>
   map (map (valid_date \<circ> timestamp) \<circ> lesionImages) session_patients = [[True], []] \<and>
   map (map timestamp \<circ> lesionImages) session_patients = [[Instant 1700000000000], []] \<and>
   loadState no_other_formats (patients_effect session_patients empty_store) initialPatients =
     [(session_patients ! 0)
        \<lparr>lesionImages := [(lesionImages (session_patients ! 0) ! 0)\<lparr>img_file := None\<rparr>]\<rparr>,
      session_patients ! 1]"
proof -
  have w: "accepts_writes empty_store" by (simp add: empty_store_def)
  have t: "\<forall>p \<in> set session_patients. \<forall>img \<in> set (lesionImages p). valid_date (timestamp img)"
    by (simp add: session_patients_def valid_date_def)
  from save_reload_roundtrip [OF w t, of no_other_formats initialPatients] w
  show ?thesis by (simp add: session_patients_def valid_date_def)
qed

end
